theory Spec2Isabelle
  imports Complex_Main "HOL-Library.Word"
begin

unbundle bit_operations_syntax

section \<open>JavaScript values used by the attendance core\<close>

text \<open>
  Strings are byte strings in UTF-8, so \<open>Buffer.from(s)\<close> is the list of the bytes of
  \<open>s\<close> and its length is the byte length that \<open>crypto.timingSafeEqual\<close> compares.
  A value that may be \<open>undefined\<close> (an unset environment variable, a missing query
  parameter, a cell beyond the end of a row) is a \<open>string option\<close>; JavaScript treats
  \<open>undefined\<close> and the empty string as falsy.
\<close>

definition truthy :: "string option \<Rightarrow> bool" where
  "truthy v = (case v of None \<Rightarrow> False | Some s \<Rightarrow> s \<noteq> [])"

definition or_else :: "string option \<Rightarrow> string \<Rightarrow> string" where
  \<comment> \<open>\<open>v || d\<close> on an optional string\<close>
  "or_else v d = (case v of None \<Rightarrow> d | Some s \<Rightarrow> if s = [] then d else s)"

datatype js_error = Error string | RangeError string | ApiError string

text \<open>
  A JavaScript number, as far as \<open>Date.now() - Number(ts)\<close> and its two comparisons
  need it: \<open>NaN\<close>, the two infinities, and finite values. Finite values are exact
  rationals; the rounding of a literal to the nearest double is not modelled. Time values
  (\<open>Date.now()\<close>) are integers below \<open>2 ^ 53\<close> in magnitude, where doubles are exact.
\<close>

datatype jsnum = NaN | Fin rat | PosInf | NegInf

fun js_minus :: "jsnum \<Rightarrow> jsnum \<Rightarrow> jsnum" where
  "js_minus NaN _ = NaN"
| "js_minus _ NaN = NaN"
| "js_minus (Fin a) (Fin b) = Fin (a - b)"
| "js_minus (Fin a) PosInf = NegInf"
| "js_minus (Fin a) NegInf = PosInf"
| "js_minus PosInf PosInf = NaN"
| "js_minus PosInf _ = PosInf"
| "js_minus NegInf NegInf = NaN"
| "js_minus NegInf _ = NegInf"

fun js_less :: "jsnum \<Rightarrow> jsnum \<Rightarrow> bool" where
  "js_less NaN _ = False"
| "js_less _ NaN = False"
| "js_less (Fin a) (Fin b) = (a < b)"
| "js_less (Fin a) PosInf = True"
| "js_less (Fin a) NegInf = False"
| "js_less PosInf _ = False"
| "js_less NegInf NegInf = False"
| "js_less NegInf _ = True"

definition js_greater :: "jsnum \<Rightarrow> jsnum \<Rightarrow> bool" where
  "js_greater a b = js_less b a"

subsection \<open>\<open>Number(string)\<close> and \<open>toString\<close> of an integer\<close>

definition is_digit :: "char \<Rightarrow> bool" where
  "is_digit c = (let n = (of_char c :: nat) in 48 \<le> n \<and> n \<le> 57)"

definition digit_val :: "char \<Rightarrow> nat" where
  "digit_val c = of_char c - 48"

definition digits_val :: "string \<Rightarrow> nat" where
  "digits_val s = foldl (\<lambda>a c. 10 * a + digit_val c) 0 s"

definition digit_char :: "nat \<Rightarrow> char" where
  "digit_char d = char_of (48 + d)"

fun digits_of :: "nat \<Rightarrow> string" where
  "digits_of n = (if n < 10 then [digit_char n] else digits_of (n div 10) @ [digit_char (n mod 10)])"

declare digits_of.simps [simp del]

definition js_int_toString :: "int \<Rightarrow> string" where
  \<comment> \<open>\<open>n.toString()\<close> for an integer time value: decimal digits, \<open>-\<close> when negative\<close>
  "js_int_toString n = (if n < 0 then CHR ''-'' # digits_of (nat (- n)) else digits_of (nat n))"

definition js_whitespace :: "string list" where
  \<comment> \<open>WhiteSpace and LineTerminator of ECMAScript, each in UTF-8\<close>
  "js_whitespace =
    [[CHR 0x09], [CHR 0x0A], [CHR 0x0B], [CHR 0x0C], [CHR 0x0D], [CHR 0x20],
     [CHR 0xC2, CHR 0xA0], [CHR 0xE1, CHR 0x9A, CHR 0x80],
     [CHR 0xE2, CHR 0x80, CHR 0x80], [CHR 0xE2, CHR 0x80, CHR 0x81],
     [CHR 0xE2, CHR 0x80, CHR 0x82], [CHR 0xE2, CHR 0x80, CHR 0x83],
     [CHR 0xE2, CHR 0x80, CHR 0x84], [CHR 0xE2, CHR 0x80, CHR 0x85],
     [CHR 0xE2, CHR 0x80, CHR 0x86], [CHR 0xE2, CHR 0x80, CHR 0x87],
     [CHR 0xE2, CHR 0x80, CHR 0x88], [CHR 0xE2, CHR 0x80, CHR 0x89],
     [CHR 0xE2, CHR 0x80, CHR 0x8A], [CHR 0xE2, CHR 0x80, CHR 0xA8],
     [CHR 0xE2, CHR 0x80, CHR 0xA9], [CHR 0xE2, CHR 0x80, CHR 0xAF],
     [CHR 0xE2, CHR 0x81, CHR 0x9F], [CHR 0xE3, CHR 0x80, CHR 0x80],
     [CHR 0xEF, CHR 0xBB, CHR 0xBF]]"

definition ws_at_start :: "string \<Rightarrow> nat" where
  \<comment> \<open>the byte length of the whitespace character the string starts with, or 0\<close>
  "ws_at_start s =
     (case find (\<lambda>w. take (length w) s = w) js_whitespace of None \<Rightarrow> 0 | Some w \<Rightarrow> length w)"

definition ws_at_end :: "string \<Rightarrow> nat" where
  "ws_at_end s =
     (case find (\<lambda>w. drop (length s - length w) s = w) js_whitespace of
        None \<Rightarrow> 0 | Some w \<Rightarrow> length w)"

fun trim_start :: "nat \<Rightarrow> string \<Rightarrow> string" where
  \<comment> \<open>the first argument bounds the number of characters removed; callers pass the length\<close>
  "trim_start 0 s = s"
| "trim_start (Suc k) s = (if ws_at_start s = 0 then s else trim_start k (drop (ws_at_start s) s))"

fun trim_end :: "nat \<Rightarrow> string \<Rightarrow> string" where
  "trim_end 0 s = s"
| "trim_end (Suc k) s =
     (if ws_at_end s = 0 then s else trim_end k (take (length s - ws_at_end s) s))"

definition js_trim :: "string \<Rightarrow> string" where
  "js_trim s = (let t = trim_start (length s) s in trim_end (length t) t)"

definition radix_digit :: "char \<Rightarrow> nat option" where
  "radix_digit c =
     (let n = (of_char c :: nat) in
      if 48 \<le> n \<and> n \<le> 57 then Some (n - 48)
      else if 97 \<le> n \<and> n \<le> 102 then Some (n - 87)
      else if 65 \<le> n \<and> n \<le> 70 then Some (n - 55)
      else None)"

fun radix_val :: "nat \<Rightarrow> nat \<Rightarrow> string \<Rightarrow> nat option" where
  "radix_val b acc [] = Some acc"
| "radix_val b acc (c # cs) =
     (case radix_digit c of
        None \<Rightarrow> None
      | Some d \<Rightarrow> if d < b then radix_val b (b * acc + d) cs else None)"

definition non_decimal_literal :: "string \<Rightarrow> nat option" where
  \<comment> \<open>\<open>0x\<close>, \<open>0o\<close> and \<open>0b\<close> integer literals (no sign, at least one digit)\<close>
  "non_decimal_literal t =
     (let p = take 2 t; r = drop 2 t in
      if r = [] then None
      else if p = ''0x'' \<or> p = ''0X'' then radix_val 16 0 r
      else if p = ''0o'' \<or> p = ''0O'' then radix_val 8 0 r
      else if p = ''0b'' \<or> p = ''0B'' then radix_val 2 0 r
      else None)"

definition exponent_part :: "string \<Rightarrow> int option" where
  \<comment> \<open>what follows \<open>e\<close> or \<open>E\<close>: an optional sign and at least one digit\<close>
  "exponent_part s =
     (let neg = (take 1 s = ''-'');
          d = (if take 1 s = ''-'' \<or> take 1 s = ''+'' then drop 1 s else s)
      in if d = [] then None
         else if list_all is_digit d then Some (if neg then - int (digits_val d) else int (digits_val d))
         else None)"

definition pow10 :: "int \<Rightarrow> rat" where
  "pow10 e = (if 0 \<le> e then 10 ^ nat e else 1 / 10 ^ nat (- e))"

definition str_unsigned_decimal :: "string \<Rightarrow> rat option" where
  \<comment> \<open>digits, an optional fraction, an optional exponent; a digit on one side of the dot\<close>
  "str_unsigned_decimal s =
     (let ip = takeWhile is_digit s;
          r1 = dropWhile is_digit s;
          dot = (take 1 r1 = ''.'');
          fp = (if dot then takeWhile is_digit (drop 1 r1) else []);
          r2 = (if dot then dropWhile is_digit (drop 1 r1) else r1);
          mant = of_nat (digits_val ip) + of_nat (digits_val fp) / 10 ^ length fp
      in if ip = [] \<and> fp = [] then None
         else if r2 = [] then Some mant
         else if take 1 r2 = ''e'' \<or> take 1 r2 = ''E'' then
           (case exponent_part (drop 1 r2) of None \<Rightarrow> None | Some e \<Rightarrow> Some (mant * pow10 e))
         else None)"

definition js_Number :: "string \<Rightarrow> jsnum" where
  \<comment> \<open>\<open>Number(s)\<close> for a string: StringToNumber of ECMAScript\<close>
  "js_Number s =
     (let t = js_trim s in
      if t = [] then Fin 0
      else case non_decimal_literal t of
        Some n \<Rightarrow> Fin (of_nat n)
      | None \<Rightarrow>
         (let neg = (take 1 t = ''-'');
              u = (if take 1 t = ''-'' \<or> take 1 t = ''+'' then drop 1 t else t)
          in if u = ''Infinity'' then (if neg then NegInf else PosInf)
             else case str_unsigned_decimal u of
               None \<Rightarrow> NaN
             | Some q \<Rightarrow> Fin (if neg then - q else q)))"

section \<open>HMAC-SHA256, hex digests and the constant-time comparison\<close>

text \<open>
  \<open>crypto.createHmac('sha256', key).update(payload).digest('hex')\<close> is Node's HMAC
  (RFC 2104) over SHA-256 (FIPS 180-4), written out here on bytes and 32-bit words.
\<close>

type_synonym byte = "8 word"
type_synonym u32 = "32 word"
type_synonym sha_state = "u32 \<times> u32 \<times> u32 \<times> u32 \<times> u32 \<times> u32 \<times> u32 \<times> u32"

definition sha256_K :: "u32 list" where
  "sha256_K =
  [1116352408, 1899447441, 3049323471, 3921009573, 961987163, 1508970993, 2453635748, 2870763221,
   3624381080, 310598401, 607225278, 1426881987, 1925078388, 2162078206, 2614888103, 3248222580,
   3835390401, 4022224774, 264347078, 604807628, 770255983, 1249150122, 1555081692, 1996064986,
   2554220882, 2821834349, 2952996808, 3210313671, 3336571891, 3584528711, 113926993, 338241895,
   666307205, 773529912, 1294757372, 1396182291, 1695183700, 1986661051, 2177026350, 2456956037,
   2730485921, 2820302411, 3259730800, 3345764771, 3516065817, 3600352804, 4094571909, 275423344,
   430227734, 506948616, 659060556, 883997877, 958139571, 1322822218, 1537002063, 1747873779,
   1955562222, 2024104815, 2227730452, 2361852424, 2428436474, 2756734187, 3204031479, 3329325298]"

definition sha256_H0 :: sha_state where
  "sha256_H0 = (1779033703, 3144134277, 1013904242, 2773480762,
                1359893119, 2600822924, 528734635, 1541459225)"

definition rotr :: "nat \<Rightarrow> u32 \<Rightarrow> u32" where
  "rotr n x = drop_bit n x OR push_bit (32 - n) x"

definition ssig0 :: "u32 \<Rightarrow> u32" where
  "ssig0 x = rotr 7 x XOR rotr 18 x XOR drop_bit 3 x"

definition ssig1 :: "u32 \<Rightarrow> u32" where
  "ssig1 x = rotr 17 x XOR rotr 19 x XOR drop_bit 10 x"

definition bsig0 :: "u32 \<Rightarrow> u32" where
  "bsig0 x = rotr 2 x XOR rotr 13 x XOR rotr 22 x"

definition bsig1 :: "u32 \<Rightarrow> u32" where
  "bsig1 x = rotr 6 x XOR rotr 11 x XOR rotr 25 x"

definition sha_ch :: "u32 \<Rightarrow> u32 \<Rightarrow> u32 \<Rightarrow> u32" where
  "sha_ch e f g = (e AND f) XOR (NOT e AND g)"

definition sha_maj :: "u32 \<Rightarrow> u32 \<Rightarrow> u32 \<Rightarrow> u32" where
  "sha_maj a b c = (a AND b) XOR (a AND c) XOR (b AND c)"

fun words_of :: "byte list \<Rightarrow> u32 list" where
  "words_of (a # b # c # d # r) =
     (push_bit 24 (ucast a) OR push_bit 16 (ucast b) OR push_bit 8 (ucast c) OR ucast d)
       # words_of r"
| "words_of _ = []"

definition bytes_of_u32 :: "u32 \<Rightarrow> byte list" where
  "bytes_of_u32 w = [ucast (drop_bit 24 w), ucast (drop_bit 16 w), ucast (drop_bit 8 w), ucast w]"

fun schedule :: "nat \<Rightarrow> u32 list \<Rightarrow> u32 list" where
  "schedule 0 w = w"
| "schedule (Suc n) w =
     (let t = length w in
      schedule n (w @ [ssig1 (w ! (t - 2)) + w ! (t - 7) + ssig0 (w ! (t - 15)) + w ! (t - 16)]))"

fun sha_round :: "sha_state \<Rightarrow> u32 \<times> u32 \<Rightarrow> sha_state" where
  "sha_round (a, b, c, d, e, f, g, h) (k, w) =
     (let t1 = h + bsig1 e + sha_ch e f g + k + w;
          t2 = bsig0 a + sha_maj a b c
      in (t1 + t2, a, b, c, d + t1, e, f, g))"

fun add_state :: "sha_state \<Rightarrow> sha_state \<Rightarrow> sha_state" where
  "add_state (a, b, c, d, e, f, g, h) (a', b', c', d', e', f', g', h') =
     (a + a', b + b', c + c', d + d', e + e', f + f', g + g', h + h')"

definition compress :: "sha_state \<Rightarrow> byte list \<Rightarrow> sha_state" where
  "compress s block =
     add_state s (foldl sha_round s (zip sha256_K (schedule 48 (words_of block))))"

definition sha_pad :: "byte list \<Rightarrow> byte list" where
  "sha_pad m =
     (let l = length m;
          z = (119 - l mod 64) mod 64;
          bits = (word_of_nat (8 * l) :: 64 word)
      in m @ [0x80] @ replicate z 0 @
         map (\<lambda>i. ucast (drop_bit (8 * (7 - i)) bits)) [0..<8])"

fun blocks :: "nat \<Rightarrow> byte list \<Rightarrow> byte list list" where
  "blocks 0 m = []"
| "blocks (Suc n) m = take 64 m # blocks n (drop 64 m)"

fun state_bytes :: "sha_state \<Rightarrow> byte list" where
  "state_bytes (a, b, c, d, e, f, g, h) = concat (map bytes_of_u32 [a, b, c, d, e, f, g, h])"

definition sha256 :: "byte list \<Rightarrow> byte list" where
  "sha256 m =
     (let p = sha_pad m
      in state_bytes (foldl compress sha256_H0 (blocks (length p div 64) p)))"

definition hmac_sha256 :: "byte list \<Rightarrow> byte list \<Rightarrow> byte list" where
  "hmac_sha256 key msg =
     (let k0 = (if length key > 64 then sha256 key else key);
          k = k0 @ replicate (64 - length k0) 0
      in sha256 (map (\<lambda>b. b XOR 0x5c) k @ sha256 (map (\<lambda>b. b XOR 0x36) k @ msg)))"

definition hex_digit :: "nat \<Rightarrow> char" where
  "hex_digit n = ''0123456789abcdef'' ! (n mod 16)"

definition hex_of :: "byte list \<Rightarrow> string" where
  "hex_of bs = concat (map (\<lambda>b. [hex_digit (unat b div 16), hex_digit (unat b mod 16)]) bs)"

definition Buffer_from :: "string \<Rightarrow> byte list" where
  \<comment> \<open>\<open>Buffer.from(s)\<close>: the UTF-8 bytes of the string\<close>
  "Buffer_from s = map of_char s"

definition createHmac_sha256_hex :: "string \<Rightarrow> string \<Rightarrow> string" where
  "createHmac_sha256_hex key payload = hex_of (hmac_sha256 (Buffer_from key) (Buffer_from payload))"

definition timingSafeEqual :: "byte list \<Rightarrow> byte list \<Rightarrow> js_error + bool" where
  \<comment> \<open>Node throws a RangeError when the two buffers differ in byte length\<close>
  "timingSafeEqual a b =
     (if length a \<noteq> length b then Inl (RangeError ''Input buffers must have the same byte length'')
      else Inr (a = b))"

section \<open>Signed attendance links (\<open>lib/attendanceSecurity\<close>)\<close>

datatype attendance_type = Checkin | Checkout

fun type_str :: "attendance_type \<Rightarrow> string" where
  "type_str Checkin = ''checkin''"
| "type_str Checkout = ''checkout''"

definition uri_unreserved :: "char \<Rightarrow> bool" where
  "uri_unreserved c =
     (let n = (of_char c :: nat) in
      (48 \<le> n \<and> n \<le> 57) \<or> (65 \<le> n \<and> n \<le> 90) \<or> (97 \<le> n \<and> n \<le> 122) \<or>
      c \<in> set ''-_.!~*'()'')"

definition upper_hex_digit :: "nat \<Rightarrow> char" where
  "upper_hex_digit n = ''0123456789ABCDEF'' ! (n mod 16)"

definition encodeURIComponent :: "string \<Rightarrow> string" where
  "encodeURIComponent s =
     concat (map (\<lambda>c. if uri_unreserved c then [c]
                       else [CHR ''%'', upper_hex_digit (of_char c div 16),
                             upper_hex_digit (of_char c mod 16)]) s)"

text \<open>
  The module constants \<open>SIGNING_SECRET\<close> and \<open>APP_BASE_URL\<close> are read from the
  environment once; \<open>Date.now()\<close> is the argument \<open>now\<close>, in milliseconds.
\<close>

definition generateSignedAttendanceUrl ::
  "string option \<Rightarrow> string option \<Rightarrow> int \<Rightarrow> attendance_type \<Rightarrow> string \<Rightarrow> js_error + string" where
  "generateSignedAttendanceUrl SIGNING_SECRET APP_BASE_URL now type slackUserId =
     (if \<not> truthy SIGNING_SECRET then Inl (Error ''ATTENDANCE_SIGNING_SECRET is not set'')
      else if \<not> truthy APP_BASE_URL then Inl (Error ''APP_BASE_URL is not set'')
      else
        let ts = js_int_toString now;
            payload = type_str type @ '':'' @ slackUserId @ '':'' @ ts;
            sig = createHmac_sha256_hex (or_else SIGNING_SECRET []) payload
        in Inr (or_else APP_BASE_URL [] @ ''/api/attendance/'' @ type_str type @ ''?u='' @
                encodeURIComponent slackUserId @ ''&ts='' @ ts @ ''&sig='' @ sig))"

definition verifySignedAttendanceRequest ::
  "string option \<Rightarrow> int \<Rightarrow> attendance_type \<Rightarrow> string \<Rightarrow> string \<Rightarrow> string \<Rightarrow> js_error + bool" where
  "verifySignedAttendanceRequest SIGNING_SECRET now type slackUserId ts sig =
     (if \<not> truthy SIGNING_SECRET then Inr False
      else
        let ageMs = js_minus (Fin (of_int now)) (js_Number ts)
        in if js_greater ageMs (Fin (10 * 60 * 1000)) then Inr False
           else if js_less ageMs (Fin 0) then Inr False
           else
             let payload = type_str type @ '':'' @ slackUserId @ '':'' @ ts;
                 expectedSig = createHmac_sha256_hex (or_else SIGNING_SECRET []) payload
             in timingSafeEqual (Buffer_from expectedSig) (Buffer_from sig))"

section \<open>Network gate (\<open>lib/attendanceSecurity\<close>)\<close>

fun split_on :: "char \<Rightarrow> string \<Rightarrow> string list" where
  \<comment> \<open>\<open>s.split(sep)\<close> for a one-character separator\<close>
  "split_on sep [] = [[]]"
| "split_on sep (c # cs) =
     (case split_on sep cs of
        [] \<Rightarrow> (if c = sep then [[], []] else [[c]])
      | p # ps \<Rightarrow> (if c = sep then [] # p # ps else (c # p) # ps))"

record request =
  param_u :: "string option"
  param_ts :: "string option"
  param_sig :: "string option"
  param_key :: "string option"
  x_forwarded_for :: "string option"
  req_ip :: "string option"

definition getClientIp :: "request \<Rightarrow> string option" where
  "getClientIp req =
     (if truthy (x_forwarded_for req)
      then Some (js_trim (hd (split_on CHR '','' (or_else (x_forwarded_for req) []))))
      else req_ip req)"

definition isIpAllowed ::
  "string option \<Rightarrow> string option \<Rightarrow> string list option \<Rightarrow> bool \<times> string list option" where
  \<comment> \<open>the third argument and the second result are the module's cache \<open>allowedIps\<close>\<close>
  "isIpAllowed OFFICE_IP_ALLOWLIST ip allowedIps =
     (if \<not> truthy ip then (False, allowedIps)
      else if \<not> truthy OFFICE_IP_ALLOWLIST then (False, allowedIps)
      else
        let cache = (case allowedIps of
                       None \<Rightarrow> filter (\<lambda>a. length a > 0)
                                 (map js_trim (split_on CHR '','' (or_else OFFICE_IP_ALLOWLIST [])))
                     | Some l \<Rightarrow> l)
        in if length cache = 0 then (False, Some cache)
           else (or_else ip [] \<in> set cache, Some cache))"

section \<open>Pakistan time (\<open>lib/timePk\<close>, \<open>lib/pkTime\<close>)\<close>

text \<open>
  The clock is read through \<open>Intl.DateTimeFormat\<close>; a reading is the ISO timestamp and
  the parts the formatters return for the time zone Asia/Karachi. A part that
  \<open>find\<close> does not return is \<open>None\<close>.
\<close>

record intl_parts =
  iso :: string
  year :: "string option"
  month :: "string option"
  day :: "string option"
  hour :: "string option"
  minute :: "string option"
  second :: "string option"

record pk_now =
  nowIso :: string
  datePk :: string
  timePk :: string
  timePkHHmm :: string

definition template :: "string option \<Rightarrow> string" where
  \<comment> \<open>a value inside a template literal: \<open>undefined\<close> prints as the word\<close>
  "template v = (case v of None \<Rightarrow> ''undefined'' | Some s \<Rightarrow> s)"

definition padStart2 :: "string \<Rightarrow> string" where
  "padStart2 s = replicate (2 - length s) CHR ''0'' @ s"

definition nowPk :: "intl_parts \<Rightarrow> pk_now" where
  "nowPk p =
     (let h = or_else (map_option padStart2 (hour p)) ''00'';
          m = or_else (map_option padStart2 (minute p)) ''00'';
          s = or_else (map_option padStart2 (second p)) ''00''
      in \<lparr> nowIso = iso p,
           datePk = template (year p) @ ''-'' @ template (month p) @ ''-'' @ template (day p),
           timePk = h @ '':'' @ m @ '':'' @ s,
           timePkHHmm = h @ '':'' @ m \<rparr>)"

definition getPkDateStr :: "intl_parts \<Rightarrow> string" where
  "getPkDateStr p = or_else (year p) [] @ ''-'' @ or_else (month p) [] @ ''-'' @ or_else (day p) []"

section \<open>The spreadsheet tabs (\<open>lib/googleSheets\<close>)\<close>

text \<open>
  A tab is the list of its data rows (row 2 onward), as \<open>values.get\<close> returns them;
  a row is the list of its cells. \<open>row[i]\<close> beyond the end of a row is \<open>undefined\<close>.
  The reads ask for rows 2 to 10000 of a tab; the model covers tabs that fit that range.
  Every call of the Sheets API may be rejected: \<open>get_ok\<close> and \<open>write_ok\<close> say
  whether the read and the write of one operation go through; a rejected write leaves
  the tab as it was.
\<close>

type_synonym row = "string list"
type_synonym sheet = "row list"

record sheets_api =
  get_ok :: bool
  write_ok :: bool

definition cell :: "row \<Rightarrow> nat \<Rightarrow> string option" where
  "cell r i = (if i < length r then Some (r ! i) else None)"

fun findRowIndex :: "(row \<Rightarrow> bool) \<Rightarrow> sheet \<Rightarrow> nat option" where
  \<comment> \<open>the loop \<open>for (i = 0; i < rows.length; i++) if (...) { found = i; break }\<close>\<close>
  "findRowIndex P [] = None"
| "findRowIndex P (r # rs) = (if P r then Some 0 else map_option Suc (findRowIndex P rs))"

definition pad_row :: "nat \<Rightarrow> row \<Rightarrow> row" where
  \<comment> \<open>\<open>while (row.length < n) row.push('')\<close>\<close>
  "pad_row n r = r @ replicate (n - length r) []"

definition write_cell :: "row \<Rightarrow> nat \<Rightarrow> string \<Rightarrow> row" where
  \<comment> \<open>an update of the single cell in column \<open>i\<close>; cells before it that the row lacks are empty\<close>
  "write_cell r i v = (pad_row (Suc i) r)[i := v]"

subsection \<open>Attendance tab\<close>

record checkin_result =
  alreadyCheckedIn :: bool
  checkInTime :: "string option"
  date :: string
  firstCheckInTimestamp :: "string option"

definition is_checkin_row :: "string \<Rightarrow> string \<Rightarrow> row \<Rightarrow> bool" where
  \<comment> \<open>\<open>row[0] === datePk && row[1] === slackUserId && row[3]\<close>\<close>
  "is_checkin_row d u r = (cell r 0 = Some d \<and> cell r 1 = Some u \<and> truthy (cell r 3))"

definition recordCheckIn ::
  "sheets_api \<Rightarrow> intl_parts \<Rightarrow> string \<Rightarrow> string \<Rightarrow> sheet \<Rightarrow> (js_error + checkin_result) \<times> sheet" where
  "recordCheckIn api clock slackUserId employeeName rows =
     (let t = nowPk clock in
      if \<not> get_ok api then (Inl (ApiError ''spreadsheets.values.get''), rows)
      else case find (is_checkin_row (datePk t) slackUserId) rows of
        Some r \<Rightarrow>
          (Inr \<lparr> alreadyCheckedIn = True, checkInTime = cell r 3, date = datePk t,
                 firstCheckInTimestamp = Some (or_else (cell r 6) (nowIso t)) \<rparr>, rows)
      | None \<Rightarrow>
          if \<not> write_ok api then (Inl (ApiError ''spreadsheets.values.append''), rows)
          else
            (Inr \<lparr> alreadyCheckedIn = False, checkInTime = None, date = datePk t,
                   firstCheckInTimestamp = Some (nowIso t) \<rparr>,
             rows @ [[datePk t, slackUserId, employeeName, timePk t, [], [], nowIso t, []]]))"

record checkout_result =
  canCheckout :: bool
  alreadyCheckedOut :: "bool option"
  checkOutTime :: "string option"
  co_checkInTime :: "string option"
  co_date :: "string option"
  totalHours :: "string option"

text \<open>
  The duration written at checkout is computed on \<open>Date\<close> values in floating point and
  formatted by \<open>formatTotalHours\<close>; it is the argument \<open>hoursBetween\<close>, from the
  recorded first check-in timestamp and the current one to the formatted text. The
  field \<open>totalHoursDecimal\<close>, a float that no caller reads, is left out of the result.
\<close>

definition recordCheckOut ::
  "sheets_api \<Rightarrow> (string \<Rightarrow> string \<Rightarrow> string) \<Rightarrow> intl_parts \<Rightarrow> string \<Rightarrow> string \<Rightarrow> sheet
     \<Rightarrow> (js_error + checkout_result) \<times> sheet" where
  "recordCheckOut api hoursBetween clock slackUserId employeeName rows =
     (let t = nowPk clock in
      if \<not> get_ok api then (Inl (ApiError ''spreadsheets.values.get''), rows)
      else case findRowIndex (is_checkin_row (datePk t) slackUserId) rows of
        None \<Rightarrow>
          (Inr \<lparr> canCheckout = False, alreadyCheckedOut = None, checkOutTime = None,
                 co_checkInTime = None, co_date = None, totalHours = None \<rparr>, rows)
      | Some i \<Rightarrow>
          let r = pad_row 8 (rows ! i) in
          if truthy (cell r 4) then
            (Inr \<lparr> canCheckout = True, alreadyCheckedOut = Some True, checkOutTime = cell r 4,
                   co_checkInTime = cell r 3, co_date = Some (datePk t),
                   totalHours = Some (or_else (cell r 5) []) \<rparr>, rows)
          else
            let total = hoursBetween (or_else (cell r 6) (nowIso t)) (nowIso t);
                r' = r[4 := timePk t, 5 := total, 7 := nowIso t]
            in if \<not> write_ok api then (Inl (ApiError ''spreadsheets.values.update''), rows)
               else
                 (Inr \<lparr> canCheckout = True, alreadyCheckedOut = Some False,
                        checkOutTime = Some (timePk t), co_checkInTime = cell r 3,
                        co_date = Some (datePk t), totalHours = Some total \<rparr>,
                  rows[i := r']))"

subsection \<open>Settings tab\<close>

definition getSetting :: "sheets_api \<Rightarrow> string \<Rightarrow> sheet \<Rightarrow> js_error + string option" where
  "getSetting api key rows =
     (if \<not> get_ok api then Inl (ApiError ''spreadsheets.values.get'')
      else case find (\<lambda>r. cell r 0 = Some key) rows of
        None \<Rightarrow> Inr None
      | Some r \<Rightarrow> Inr (if truthy (cell r 1) then cell r 1 else None))"

subsection \<open>AttendanceReminderQueue tab\<close>

datatype reminder_status = StScheduled | StCancelled | StSent

fun status_str :: "reminder_status \<Rightarrow> string" where
  "status_str StScheduled = ''scheduled''"
| "status_str StCancelled = ''cancelled''"
| "status_str StSent = ''sent''"

definition postAt_toString :: "int option \<Rightarrow> string" where
  \<comment> \<open>\<open>postAt.toString()\<close>: epoch seconds are an integer, or \<open>NaN\<close> (here \<open>None\<close>)\<close>
  "postAt_toString p = (case p of None \<Rightarrow> ''NaN'' | Some n \<Rightarrow> js_int_toString n)"

definition is_queue_row :: "string \<Rightarrow> string \<Rightarrow> row \<Rightarrow> bool" where
  \<comment> \<open>\<open>row[0] === datePk && row[1] === slackUserId\<close>\<close>
  "is_queue_row d u r = (cell r 0 = Some d \<and> cell r 1 = Some u)"

definition upsertReminderQueueRow ::
  "sheets_api \<Rightarrow> string \<Rightarrow> string \<Rightarrow> string \<Rightarrow> string \<Rightarrow> int option \<Rightarrow> reminder_status \<Rightarrow> sheet
     \<Rightarrow> (js_error + unit) \<times> sheet" where
  "upsertReminderQueueRow api datePk' slackUserId imChannelId' scheduledMessageId' postAt' status' rows =
     (if \<not> get_ok api then (Inl (ApiError ''spreadsheets.values.get''), rows)
      else
        let rowData = [datePk', slackUserId, imChannelId', scheduledMessageId',
                       postAt_toString postAt', status_str status']
        in case findRowIndex (is_queue_row datePk' slackUserId) rows of
             Some i \<Rightarrow>
               if \<not> write_ok api then (Inl (ApiError ''spreadsheets.values.update''), rows)
               else (Inr (), rows[i := rowData])
           | None \<Rightarrow>
               if \<not> write_ok api then (Inl (ApiError ''spreadsheets.values.append''), rows)
               else (Inr (), rows @ [rowData]))"

record reminder =
  imChannelId :: string
  scheduledMessageId :: string
  postAt :: jsnum
  status :: string

definition number_or_zero :: "string option \<Rightarrow> jsnum" where
  \<comment> \<open>\<open>Number(v) || 0\<close>\<close>
  "number_or_zero v =
     (let n = (case v of None \<Rightarrow> NaN | Some s \<Rightarrow> js_Number s)
      in if n = NaN \<or> n = Fin 0 then Fin 0 else n)"

definition findReminderForUser ::
  "sheets_api \<Rightarrow> string \<Rightarrow> string \<Rightarrow> sheet \<Rightarrow> js_error + reminder option" where
  "findReminderForUser api datePk' slackUserId rows =
     (if \<not> get_ok api then Inl (ApiError ''spreadsheets.values.get'')
      else case find (is_queue_row datePk' slackUserId) rows of
        None \<Rightarrow> Inr None
      | Some r \<Rightarrow>
          Inr (Some \<lparr> imChannelId = or_else (cell r 2) [],
                      scheduledMessageId = or_else (cell r 3) [],
                      postAt = number_or_zero (cell r 4),
                      status = or_else (cell r 5) [] \<rparr>))"

definition markReminderStatus ::
  "sheets_api \<Rightarrow> string \<Rightarrow> string \<Rightarrow> reminder_status \<Rightarrow> sheet \<Rightarrow> (js_error + unit) \<times> sheet" where
  \<comment> \<open>the source's type admits the statuses \<open>cancelled\<close> and \<open>sent\<close> here\<close>
  "markReminderStatus api datePk' slackUserId status' rows =
     (if \<not> get_ok api then (Inl (ApiError ''spreadsheets.values.get''), rows)
      else case findRowIndex (is_queue_row datePk' slackUserId) rows of
        None \<Rightarrow> (Inl (Error ''Reminder queue entry not found''), rows)
      | Some i \<Rightarrow>
          if \<not> write_ok api then (Inl (ApiError ''spreadsheets.values.update''), rows)
          else (Inr (), rows[i := write_cell (rows ! i) 5 (status_str status')]))"

section \<open>The world the handlers run in\<close>

text \<open>
  A handler reads the environment variables and the request, and acts on the three
  tabs, on the allowlist cache of the security module, on the console and on Slack.
  The calls made to Slack are recorded in order; what Slack and the Sheets API answer
  during one request is an argument of the handler (a record of answers), so that every
  pattern of failures is an input.
\<close>

datatype log_entry = Log string | Warn string | ErrorLog string

datatype slack_call =
    UsersInfo string
  | ConversationsOpen string
  | ScheduleMessage string "int option" string
  | DeleteScheduledMessage string string
  | PostMessage string string

record world =
  attendance :: sheet
  reminderQueue :: sheet
  settings :: sheet
  allowedIps :: "string list option"
  console :: "log_entry list"
  slack :: "slack_call list"

record env =
  ATTENDANCE_SIGNING_SECRET :: "string option"
  APP_BASE_URL :: "string option"
  OFFICE_IP_ALLOWLIST :: "string option"
  SLACK_ATTENDANCE_CHANNEL_ID :: "string option"
  CRON_SECRET :: "string option"

record schedule_summary =
  success :: bool
  summary_date :: string
  reminderTime :: string
  summary_postAt :: "int option"
  totalMembers :: nat
  scheduled :: nat
  skipped :: nat
  errors :: nat

datatype response =
    Html string string \<comment> \<open>status 200: the title and the body of the fixed HTML page\<close>
  | JsonError nat string \<comment> \<open>the status and the \<open>error\<close> field\<close>
  | JsonSummary schedule_summary \<comment> \<open>status 200\<close>

definition say :: "log_entry \<Rightarrow> world \<Rightarrow> world" where
  "say l w = w\<lparr>console := console w @ [l]\<rparr>"

definition call :: "slack_call \<Rightarrow> world \<Rightarrow> world" where
  "call c w = w\<lparr>slack := slack w @ [c]\<rparr>"

definition cross_mark :: string where
  "cross_mark = [CHR 0xE2, CHR 0x9D, CHR 0x8C]"

definition check_mark :: string where
  "check_mark = [CHR 0xE2, CHR 0x9C, CHR 0x85]"

definition green_circle :: string where
  "green_circle = [CHR 0xF0, CHR 0x9F, CHR 0x9F, CHR 0xA2]"

definition red_circle :: string where
  "red_circle = [CHR 0xF0, CHR 0x9F, CHR 0x94, CHR 0xB4]"

definition megaphone :: string where
  "megaphone = [CHR 0xF0, CHR 0x9F, CHR 0x93, CHR 0xA3]"

section \<open>Daily scheduler (\<open>api/cron/schedule-checkin-reminders\<close>)\<close>

datatype member_outcome = Scheduled | Skipped | Errored

record member_io =
  find_api :: sheets_api
  open_dm :: "js_error + string option" \<comment> \<open>\<open>conversations.open\<close>: throws, or \<open>channel?.id\<close>\<close>
  url_now :: int \<comment> \<open>\<open>Date.now()\<close> inside \<open>generateSignedAttendanceUrl\<close>\<close>
  schedule_msg :: "js_error + string option" \<comment> \<open>\<open>chat.scheduleMessage\<close>: throws, or \<open>scheduled_message_id\<close>\<close>
  upsert_api :: sheets_api

definition member_failed :: "string \<Rightarrow> world \<Rightarrow> member_outcome \<times> world" where
  \<comment> \<open>the \<open>catch\<close> of the loop body\<close>
  "member_failed memberId w =
     (Errored, say (ErrorLog (''Error scheduling reminder for user '' @ memberId @ '':'')) w)"

definition schedule_member ::
  "env \<Rightarrow> string \<Rightarrow> int option \<Rightarrow> string \<Rightarrow> member_io \<Rightarrow> world \<Rightarrow> member_outcome \<times> world" where
  \<comment> \<open>one iteration of \<open>for (const memberId of channelMembers)\<close>\<close>
  "schedule_member e datePk' postAt' memberId io w =
     (case findReminderForUser (find_api io) datePk' memberId (reminderQueue w) of
        Inl err \<Rightarrow> member_failed memberId w
      | Inr existing \<Rightarrow>
          if (case existing of None \<Rightarrow> False | Some r \<Rightarrow> status r = ''scheduled'') then
            (Skipped, say (Log (''Reminder already scheduled for user '' @ memberId)) w)
          else
            let w1 = call (ConversationsOpen memberId) w in
            (case open_dm io of
               Inl err \<Rightarrow> member_failed memberId w1
             | Inr ch \<Rightarrow>
                 if \<not> truthy ch then
                   (Errored, say (Warn (''Could not open DM with user '' @ memberId)) w1)
                 else
                   (case generateSignedAttendanceUrl (ATTENDANCE_SIGNING_SECRET e) (APP_BASE_URL e)
                           (url_now io) Checkin memberId of
                      Inl err \<Rightarrow> member_failed memberId w1
                    | Inr checkInUrl \<Rightarrow>
                        let w2 = call (ScheduleMessage (or_else ch []) postAt'
                                         (megaphone @ '' Standup Reminder'')) w1 in
                        (case schedule_msg io of
                           Inl err \<Rightarrow> member_failed memberId w2
                         | Inr sid \<Rightarrow>
                             if \<not> truthy sid then
                               (Errored,
                                say (Warn (''No scheduled_message_id returned for user '' @ memberId))
                                  w2)
                             else
                               (case upsertReminderQueueRow (upsert_api io) datePk' memberId
                                       (or_else ch []) (or_else sid []) postAt' StScheduled
                                       (reminderQueue w2) of
                                  (Inl err, q) \<Rightarrow> member_failed memberId (w2\<lparr>reminderQueue := q\<rparr>)
                                | (Inr u, q) \<Rightarrow> (Scheduled, w2\<lparr>reminderQueue := q\<rparr>))))))"

record counts =
  successCount :: nat
  errorCount :: nat
  skippedCount :: nat

fun schedule_all ::
  "env \<Rightarrow> string \<Rightarrow> int option \<Rightarrow> (string \<times> member_io) list \<Rightarrow> counts \<Rightarrow> world \<Rightarrow> counts \<times> world" where
  \<comment> \<open>the loop over the roster; each member comes with the answers given during its iteration\<close>
  "schedule_all e datePk' postAt' [] c w = (c, w)"
| "schedule_all e datePk' postAt' ((memberId, io) # rest) c w =
     (case schedule_member e datePk' postAt' memberId io w of
        (Scheduled, w') \<Rightarrow>
          schedule_all e datePk' postAt' rest (c\<lparr>successCount := successCount c + 1\<rparr>) w'
      | (Skipped, w') \<Rightarrow>
          schedule_all e datePk' postAt' rest (c\<lparr>skippedCount := skippedCount c + 1\<rparr>) w'
      | (Errored, w') \<Rightarrow>
          schedule_all e datePk' postAt' rest (c\<lparr>errorCount := errorCount c + 1\<rparr>) w')"

text \<open>
  The roster is the result of the paginated \<open>conversations.members\<close> loop: the list of
  members, or the error one of its calls threw. \<open>pkTimeToUtcEpochSeconds\<close> parses a
  date with \<open>new Date\<close>; it is an argument, \<open>None\<close> standing for \<open>NaN\<close>. The
  200 ms pause between two members changes no state and is left out.
\<close>

record cron_io =
  settings_api :: sheets_api
  cron_clock :: intl_parts
  members :: "js_error + (string \<times> member_io) list"

definition cron_failed :: "world \<Rightarrow> response \<times> world" where
  "cron_failed w =
     (JsonError 500 ''Internal server error'',
      say (ErrorLog ''Error in schedule-checkin-reminders cron:'') w)"

definition cron_GET ::
  "env \<Rightarrow> (string \<Rightarrow> string \<Rightarrow> int option) \<Rightarrow> request \<Rightarrow> cron_io \<Rightarrow> world \<Rightarrow> response \<times> world" where
  "cron_GET e pkTimeToUtcEpochSeconds req io w =
     (if \<not> truthy (CRON_SECRET e) then (JsonError 401 ''Unauthorized'', w)
      else if param_key req \<noteq> CRON_SECRET e then (JsonError 401 ''Unauthorized'', w)
      else if \<not> truthy (SLACK_ATTENDANCE_CHANNEL_ID e) then
        (JsonError 500 ''Attendance channel not configured'',
         say (ErrorLog ''SLACK_ATTENDANCE_CHANNEL_ID is not set'') w)
      else
        (case getSetting (settings_api io) ''attendanceReminderTime'' (settings w) of
           Inl err \<Rightarrow> cron_failed w
         | Inr v \<Rightarrow>
             let reminderTime' = or_else v ''09:10'';
                 w1 = say (Log (''Reminder time: '' @ reminderTime' @ '' PKT'')) w;
                 datePk' = getPkDateStr (cron_clock io);
                 postAt' = pkTimeToUtcEpochSeconds datePk' reminderTime';
                 w2 = say (Log (''Scheduling reminders for '' @ datePk' @ '' at '' @ reminderTime' @
                                '' PKT (UTC epoch: '' @ postAt_toString postAt' @ '')'')) w1
             in (case members io of
                   Inl err \<Rightarrow> cron_failed w2
                 | Inr channelMembers \<Rightarrow>
                     let w3 = say (Log (''Found '' @ digits_of (length channelMembers) @
                                        '' members in attendance channel'')) w2;
                         run = schedule_all e datePk' postAt' channelMembers
                                 \<lparr>successCount = 0, errorCount = 0, skippedCount = 0\<rparr> w3
                     in (JsonSummary \<lparr> success = True, summary_date = datePk',
                                        reminderTime = reminderTime', summary_postAt = postAt',
                                        totalMembers = length channelMembers,
                                        scheduled = successCount (fst run),
                                        skipped = skippedCount (fst run),
                                        errors = errorCount (fst run) \<rparr>, snd run))))"

section \<open>Check-in handler (\<open>api/attendance/checkin\<close>)\<close>

record checkin_io =
  verify_now :: int \<comment> \<open>\<open>Date.now()\<close> inside the verifier\<close>
  users_info :: "js_error + string option \<times> string option"
    \<comment> \<open>\<open>users.info\<close>: throws, or the profile's \<open>real_name\<close> and \<open>display_name\<close>\<close>
  checkin_clock :: intl_parts
  checkin_api :: sheets_api
  reminder_clock :: intl_parts
  lookup_api :: sheets_api
  delete_scheduled :: "js_error + unit" \<comment> \<open>\<open>chat.deleteScheduledMessage\<close>\<close>
  mark_api :: sheets_api
  reply_clock :: intl_parts
  post_message :: "js_error + unit" \<comment> \<open>\<open>chat.postMessage\<close> to the attendance channel\<close>

definition cancel_failed :: "string \<Rightarrow> world \<Rightarrow> world" where
  \<comment> \<open>the inner \<open>catch (cancelError)\<close>\<close>
  "cancel_failed slackUserId w =
     say (Warn (''Failed to cancel reminder for user '' @ slackUserId @ '':'')) w"

definition cancelReminder :: "checkin_io \<Rightarrow> string \<Rightarrow> world \<Rightarrow> world" where
  \<comment> \<open>the block ``Cancel scheduled reminder if it exists'' with its two \<open>try\<close>/\<open>catch\<close>\<close>
  "cancelReminder io slackUserId w =
     (let datePk' = getPkDateStr (reminder_clock io) in
      (case findReminderForUser (lookup_api io) datePk' slackUserId (reminderQueue w) of
         Inl reminderError \<Rightarrow> say (Warn ''Error checking for reminder:'') w
       | Inr None \<Rightarrow> w
       | Inr (Some r) \<Rightarrow>
           if status r = ''scheduled'' then
             let w1 = call (DeleteScheduledMessage (imChannelId r) (scheduledMessageId r)) w in
             (case delete_scheduled io of
                Inl cancelError \<Rightarrow> cancel_failed slackUserId w1
              | Inr u \<Rightarrow>
                  (case markReminderStatus (mark_api io) datePk' slackUserId StCancelled
                          (reminderQueue w1) of
                     (Inl cancelError, q) \<Rightarrow> cancel_failed slackUserId (w1\<lparr>reminderQueue := q\<rparr>)
                   | (Inr u', q) \<Rightarrow>
                       say (Log (''Cancelled scheduled reminder for user '' @ slackUserId))
                         (w1\<lparr>reminderQueue := q\<rparr>)))
           else w))"

definition checkin_failed :: "world \<Rightarrow> response \<times> world" where
  \<comment> \<open>the outer \<open>catch\<close> of the handler\<close>
  "checkin_failed w =
     (Html ''Check-in''
        (cross_mark @ '' An error occurred while recording check-in. Please try again.''),
      say (ErrorLog ''Error in check-in endpoint:'') w)"

definition checkin_GET :: "env \<Rightarrow> request \<Rightarrow> checkin_io \<Rightarrow> world \<Rightarrow> response \<times> world" where
  "checkin_GET e req io w =
     (let slackUserId = or_else (param_u req) [];
          ts = or_else (param_ts req) [];
          sig = or_else (param_sig req) []
      in
      if slackUserId = [] \<or> ts = [] \<or> sig = [] then
        (Html ''Check-in'' ''Invalid or expired check-in link.'', w)
      else
        (case verifySignedAttendanceRequest (ATTENDANCE_SIGNING_SECRET e) (verify_now io)
                Checkin slackUserId ts sig of
           Inl err \<Rightarrow> checkin_failed w
         | Inr valid \<Rightarrow>
             if \<not> valid then (Html ''Check-in'' ''Invalid or expired check-in link.'', w)
             else
               let clientIp = getClientIp req;
                   gate = isIpAllowed (OFFICE_IP_ALLOWLIST e) clientIp (allowedIps w);
                   w1 = w\<lparr>allowedIps := snd gate\<rparr>
               in
               if \<not> fst gate then
                 (Html ''Check-in''
                    (cross_mark @ '' You are not on the office network. Your IP: '' @
                     or_else clientIp ''unknown''), w1)
               else
                 let w2 = call (UsersInfo slackUserId) w1 in
                 (case users_info io of
                    Inl err \<Rightarrow> checkin_failed w2
                  | Inr profile \<Rightarrow>
                      let employeeName =
                            or_else (fst profile) (or_else (snd profile) slackUserId);
                          claim = recordCheckIn (checkin_api io) (checkin_clock io) slackUserId
                                    employeeName (attendance w2);
                          w3 = w2\<lparr>attendance := snd claim\<rparr>
                      in
                      (case fst claim of
                         Inl err \<Rightarrow> checkin_failed w3
                       | Inr result \<Rightarrow>
                           if alreadyCheckedIn result then
                             (Html ''Check-in''
                                (''You already checked in today at '' @
                                 template (checkInTime result) @ ''.''), w3)
                           else
                             let w4 = cancelReminder io slackUserId w3;
                                 t = nowPk (reply_clock io)
                             in
                             if truthy (SLACK_ATTENDANCE_CHANNEL_ID e) then
                               let w5 = call (PostMessage
                                                (or_else (SLACK_ATTENDANCE_CHANNEL_ID e) [])
                                                (green_circle @ '' Check-in: <@'' @ slackUserId @
                                                 ''> at '' @ timePkHHmm t)) w4
                               in (case post_message io of
                                     Inl err \<Rightarrow> checkin_failed w5
                                   | Inr u \<Rightarrow>
                                       (Html ''Check-in''
                                          (check_mark @ '' Check-in recorded for '' @ employeeName @
                                           '' at '' @ timePkHHmm t @ ''.''), w5))
                             else
                               (Html ''Check-in''
                                  (check_mark @ '' Check-in recorded for '' @ employeeName @
                                   '' at '' @ timePkHHmm t @ ''.''), w4)))))"

section \<open>Checkout handler (\<open>api/attendance/checkout\<close>)\<close>

record checkout_io =
  co_verify_now :: int
  co_users_info :: "js_error + string option \<times> string option"
  checkout_clock :: intl_parts
  checkout_api :: sheets_api
  co_reply_clock :: intl_parts
  co_post_message :: "js_error + unit"

definition checkout_failed :: "world \<Rightarrow> response \<times> world" where
  "checkout_failed w =
     (Html ''Check-out''
        (cross_mark @ '' An error occurred while recording checkout. Please try again.''),
      say (ErrorLog ''Error in checkout endpoint:'') w)"

definition template_line :: string where
  \<comment> \<open>the line break and the indentation inside the template of the success message\<close>
  "template_line = CHR 0x0A # ''      ''"

definition checkout_summary :: "string \<Rightarrow> string \<Rightarrow> checkout_result \<Rightarrow> string" where
  "checkout_summary employeeName hhmm result =
     check_mark @ '' Check-out recorded for '' @ employeeName @ '' at '' @ hhmm @ ''.<br><br>'' @
     template_line @ ''<strong>Summary:</strong><br>'' @
     template_line @ ''Date: '' @ template (co_date result) @ ''<br>'' @
     template_line @ ''Check-in: '' @ template (co_checkInTime result) @ ''<br>'' @
     template_line @ ''Check-out: '' @ template (checkOutTime result) @ ''<br>'' @
     template_line @ ''Total Hours: '' @ template (totalHours result)"

definition checkout_GET ::
  "env \<Rightarrow> (string \<Rightarrow> string \<Rightarrow> string) \<Rightarrow> request \<Rightarrow> checkout_io \<Rightarrow> world \<Rightarrow> response \<times> world" where
  "checkout_GET e hoursBetween req io w =
     (let slackUserId = or_else (param_u req) [];
          ts = or_else (param_ts req) [];
          sig = or_else (param_sig req) []
      in
      if slackUserId = [] \<or> ts = [] \<or> sig = [] then
        (Html ''Check-out'' ''Invalid or expired checkout link.'', w)
      else
        (case verifySignedAttendanceRequest (ATTENDANCE_SIGNING_SECRET e) (co_verify_now io)
                Checkout slackUserId ts sig of
           Inl err \<Rightarrow> checkout_failed w
         | Inr valid \<Rightarrow>
             if \<not> valid then (Html ''Check-out'' ''Invalid or expired checkout link.'', w)
             else
               let clientIp = getClientIp req;
                   gate = isIpAllowed (OFFICE_IP_ALLOWLIST e) clientIp (allowedIps w);
                   w1 = w\<lparr>allowedIps := snd gate\<rparr>
               in
               if \<not> fst gate then
                 (Html ''Check-out''
                    (cross_mark @ '' You are not on the office network. Your IP: '' @
                     or_else clientIp ''unknown''), w1)
               else
                 let w2 = call (UsersInfo slackUserId) w1 in
                 (case co_users_info io of
                    Inl err \<Rightarrow> checkout_failed w2
                  | Inr profile \<Rightarrow>
                      let employeeName =
                            or_else (fst profile) (or_else (snd profile) slackUserId);
                          claim = recordCheckOut (checkout_api io) hoursBetween (checkout_clock io)
                                    slackUserId employeeName (attendance w2);
                          w3 = w2\<lparr>attendance := snd claim\<rparr>
                      in
                      (case fst claim of
                         Inl err \<Rightarrow> checkout_failed w3
                       | Inr result \<Rightarrow>
                           if \<not> canCheckout result then
                             (Html ''Check-out''
                                (cross_mark @
                                 '' No check-in found for today. Please check in first.''), w3)
                           else if alreadyCheckedOut result = Some True then
                             (Html ''Check-out''
                                (''You already checked out today at '' @
                                 template (checkOutTime result) @ ''. Check-in was at '' @
                                 template (co_checkInTime result) @ ''.''), w3)
                           else
                             let t = nowPk (co_reply_clock io) in
                             if truthy (SLACK_ATTENDANCE_CHANNEL_ID e) \<and> truthy (totalHours result)
                             then
                               let w4 = call (PostMessage
                                                (or_else (SLACK_ATTENDANCE_CHANNEL_ID e) [])
                                                (red_circle @ '' Check-out: <@'' @ slackUserId @
                                                 ''> at '' @ timePkHHmm t)) w3
                               in (case co_post_message io of
                                     Inl err \<Rightarrow> checkout_failed w4
                                   | Inr u \<Rightarrow>
                                       (Html ''Check-out''
                                          (checkout_summary employeeName (timePkHHmm t) result),
                                        w4))
                             else
                               (Html ''Check-out''
                                  (checkout_summary employeeName (timePkHHmm t) result), w3)))))"

section \<open>Properties of the tabs\<close>

definition row_key :: "row \<Rightarrow> string option \<times> string option" where
  \<comment> \<open>the key of a row: its date and its Slack user id\<close>
  "row_key r = (cell r 0, cell r 1)"

definition has_checkin :: "row \<Rightarrow> bool" where
  "has_checkin r = truthy (cell r 3)"



definition already_scheduled :: "string \<Rightarrow> string \<Rightarrow> sheet \<Rightarrow> bool" where
  \<comment> \<open>the first row of the queue with the key has the status \<open>scheduled\<close>\<close>
  "already_scheduled d u rows =
     (case find (is_queue_row d u) rows of
        None \<Rightarrow> False
      | Some r \<Rightarrow> or_else (cell r 5) [] = ''scheduled'')"

definition answered_channel :: "member_io \<Rightarrow> string" where
  \<comment> \<open>the id of the channel \<open>conversations.open\<close> returned, empty when it returned none\<close>
  "answered_channel io = (case open_dm io of Inl err \<Rightarrow> [] | Inr c \<Rightarrow> or_else c [])"

definition answered_message_id :: "member_io \<Rightarrow> string" where
  "answered_message_id io = (case schedule_msg io of Inl err \<Rightarrow> [] | Inr m \<Rightarrow> or_else m [])"

definition steps_succeed :: "env \<Rightarrow> member_io \<Rightarrow> bool" where
  \<comment> \<open>every step of an iteration after the lookup goes through: the DM channel opens, the
      link is signed, the message is scheduled, and the queue row is written\<close>
  "steps_succeed e io =
     (answered_channel io \<noteq> [] \<and> truthy (ATTENDANCE_SIGNING_SECRET e) \<and> truthy (APP_BASE_URL e)
      \<and> answered_message_id io \<noteq> [] \<and> get_ok (upsert_api io) \<and> write_ok (upsert_api io))"


section \<open>Scenario data\<close>

text \<open>
  The concrete office used in the examples below: its environment, an empty world, clock
  readings of 15 January 2025 in Karachi, a Sheets API that answers, and a request that
  carries the signature the office's secret gives.
\<close>

definition office_env :: env where
  "office_env = \<lparr> ATTENDANCE_SIGNING_SECRET = Some ''s3cret'',
       APP_BASE_URL = Some ''https://bx.example'',
       OFFICE_IP_ALLOWLIST = Some ''203.0.113.7, 198.51.100.2'',
       SLACK_ATTENDANCE_CHANNEL_ID = Some ''C0ATT'',
       CRON_SECRET = Some ''cr0n'' \<rparr>"

definition office_world :: "sheet \<Rightarrow> sheet \<Rightarrow> world" where
  "office_world rows queue = \<lparr> attendance = rows, reminderQueue = queue, settings = [],
       allowedIps = None, console = [], slack = [] \<rparr>"

definition pk_clock :: "string \<Rightarrow> string \<Rightarrow> string \<Rightarrow> intl_parts" where
  "pk_clock i h m = \<lparr> iso = i, year = Some ''2025'', month = Some ''01'', day = Some ''15'',
       hour = Some h, minute = Some m, second = Some ''00'' \<rparr>"

definition sheets_up :: sheets_api where
  "sheets_up = \<lparr> get_ok = True, write_ok = True \<rparr>"

definition sheets_down :: sheets_api where
  "sheets_down = \<lparr> get_ok = False, write_ok = False \<rparr>"

definition signed_request :: "attendance_type \<Rightarrow> string \<Rightarrow> string \<Rightarrow> request" where
  "signed_request type u ts = \<lparr> param_u = Some u, param_ts = Some ts,
       param_sig = Some (createHmac_sha256_hex ''s3cret'' (type_str type @ '':'' @ u @ '':'' @ ts)),
       param_key = None, x_forwarded_for = Some ''203.0.113.7, 10.0.0.1'', req_ip = None \<rparr>"

definition epoch_0910 :: "string \<Rightarrow> string \<Rightarrow> int option" where
  \<comment> \<open>09:10 in Karachi on 15 January 2025, in epoch seconds\<close>
  "epoch_0910 d t = Some 1736914200"

definition no_hours :: "string \<Rightarrow> string \<Rightarrow> string" where
  "no_hours a b = ''0h''"

definition cron_request :: request where
  "cron_request = \<lparr> param_u = None, param_ts = None, param_sig = None,
       param_key = Some ''cr0n'', x_forwarded_for = None, req_ip = None \<rparr>"

definition slack_answers :: "string \<Rightarrow> string \<Rightarrow> member_io" where
  \<comment> \<open>an iteration in which Slack opens the given channel and returns the given message id\<close>
  "slack_answers c m = \<lparr> find_api = sheets_up, open_dm = Inr (Some c), url_now = 1000,
       schedule_msg = Inr (Some m), upsert_api = sheets_up \<rparr>"

section \<open>Numbers, digests and the time window\<close>



lemma digits_val_snoc: "digits_val (s @ [c]) = 10 * digits_val s + digit_val c"
  by (simp add: digits_val_def)

lemma digit_val_digit_char: "d < 10 \<Longrightarrow> digit_val (digit_char d) = d"
  by (simp add: digit_val_def digit_char_def)

lemma is_digit_digit_char: "d < 10 \<Longrightarrow> is_digit (digit_char d)"
  by (simp add: is_digit_def digit_char_def)

lemma digits_val_digits_of: "digits_val (digits_of n) = n"
proof (induction n rule: digits_of.induct)
  case (1 n)
  show ?case
  proof (cases "n < 10")
    case True
    then show ?thesis
      by (subst digits_of.simps) (simp add: digits_val_def digit_val_digit_char)
  next
    case False
    then show ?thesis
      using 1 by (subst digits_of.simps) (simp add: digits_val_snoc digit_val_digit_char)
  qed
qed

lemma digits_of_all_digits: "list_all is_digit (digits_of n)"
proof (induction n rule: digits_of.induct)
  case (1 n)
  show ?case
  proof (cases "n < 10")
    case True
    then show ?thesis by (subst digits_of.simps) (simp add: is_digit_digit_char)
  next
    case False
    then show ?thesis
      using 1 by (subst digits_of.simps) (simp add: is_digit_digit_char)
  qed
qed

lemma digits_of_nonempty: "digits_of n \<noteq> []"
  by (subst digits_of.simps) simp

lemma js_whitespace_ends:
  "list_all (\<lambda>w. w \<noteq> [] \<and> \<not> is_digit (hd w) \<and> hd w \<noteq> CHR ''-'' \<and> \<not> is_digit (last w))
     js_whitespace"
  by (simp add: js_whitespace_def is_digit_def)

lemma ws_at_start_plain:
  assumes "is_digit c \<or> c = CHR ''-''"
  shows "ws_at_start (c # cs) = 0"
proof -
  have "\<not> (\<exists>w \<in> set js_whitespace. take (length w) (c # cs) = w)"
  proof
    assume "\<exists>w \<in> set js_whitespace. take (length w) (c # cs) = w"
    then obtain w where w: "w \<in> set js_whitespace" and t: "take (length w) (c # cs) = w"
      by blast
    from w js_whitespace_ends have ne: "w \<noteq> []" and nd: "\<not> is_digit (hd w)" "hd w \<noteq> CHR ''-''"
      by (auto simp: list_all_iff)
    from ne obtain a r where "w = a # r" by (cases w) auto
    with t have "hd w = c" by simp
    with nd assms show False by auto
  qed
  then have "find (\<lambda>w. take (length w) (c # cs) = w) js_whitespace = None"
    by (simp add: find_None_iff)
  then show ?thesis by (simp add: ws_at_start_def)
qed

lemma ws_at_end_plain:
  assumes "is_digit c"
  shows "ws_at_end (cs @ [c]) = 0"
proof -
  have "\<not> (\<exists>w \<in> set js_whitespace. drop (length (cs @ [c]) - length w) (cs @ [c]) = w)"
  proof
    assume "\<exists>w \<in> set js_whitespace. drop (length (cs @ [c]) - length w) (cs @ [c]) = w"
    then obtain w where w: "w \<in> set js_whitespace"
      and d: "drop (length (cs @ [c]) - length w) (cs @ [c]) = w" by blast
    from w js_whitespace_ends have ne: "w \<noteq> []" and nd: "\<not> is_digit (last w)"
      by (auto simp: list_all_iff)
    have "last (drop (length (cs @ [c]) - length w) (cs @ [c])) = last (cs @ [c])"
      using ne by (intro last_drop) simp
    with d have "last w = c" by simp
    with nd assms show False by simp
  qed
  then have "find (\<lambda>w. drop (length (cs @ [c]) - length w) (cs @ [c]) = w) js_whitespace = None"
    by (simp add: find_None_iff)
  then show ?thesis by (simp add: ws_at_end_def)
qed

lemma trim_start_plain:
  "is_digit c \<or> c = CHR ''-'' \<Longrightarrow> trim_start k (c # cs) = c # cs"
  by (cases k) (simp_all add: ws_at_start_plain)

lemma trim_end_plain: "is_digit c \<Longrightarrow> trim_end k (cs @ [c]) = cs @ [c]"
  by (cases k) (simp_all add: ws_at_end_plain del: length_append)

lemma js_trim_plain:
  assumes "s \<noteq> []" "is_digit (hd s) \<or> hd s = CHR ''-''" "is_digit (last s)"
  shows "js_trim s = s"
proof -
  from assms(1) obtain c cs where s1: "s = c # cs" by (cases s) auto
  from assms(1) obtain c' cs' where s2: "s = cs' @ [c']" by (cases s rule: rev_cases) auto
  have a: "trim_start (length s) s = s"
    using assms(2) trim_start_plain[of c "length s" cs] s1 by simp
  have b: "trim_end (length s) s = s"
    using assms(3) trim_end_plain[of c' "length s" cs'] s2 by simp
  show ?thesis by (simp add: js_trim_def a b)
qed

lemma non_decimal_digits:
  "list_all is_digit (drop 1 t) \<Longrightarrow> non_decimal_literal t = None"
proof (cases t)
  case Nil
  then show ?thesis by (simp add: non_decimal_literal_def)
next
  case (Cons a r)
  assume h: "list_all is_digit (drop 1 t)"
  show ?thesis
  proof (cases r)
    case Nil
    with Cons show ?thesis by (simp add: non_decimal_literal_def)
  next
    case (Cons b r')
    with h \<open>t = a # r\<close> have "is_digit b" by simp
    then have "b \<noteq> CHR ''x'' \<and> b \<noteq> CHR ''X'' \<and> b \<noteq> CHR ''o'' \<and> b \<noteq> CHR ''O''
        \<and> b \<noteq> CHR ''b'' \<and> b \<noteq> CHR ''B''"
      by (auto simp: is_digit_def)
    with Cons \<open>t = a # r\<close> show ?thesis by (simp add: non_decimal_literal_def Let_def)
  qed
qed

lemma str_unsigned_decimal_digits:
  assumes "d \<noteq> []" "list_all is_digit d"
  shows "str_unsigned_decimal d = Some (of_nat (digits_val d))"
proof -
  have t: "takeWhile is_digit d = d" using assms(2) by (simp add: list_all_iff)
  have dr: "dropWhile is_digit d = []" using assms(2) by (simp add: list_all_iff)
  show ?thesis
    using assms(1) by (simp add: str_unsigned_decimal_def t dr Let_def digits_val_def)
qed

lemma digits_not_Infinity: "list_all is_digit d \<Longrightarrow> d \<noteq> ''Infinity''"
  by (auto simp: is_digit_def)

lemma js_Number_digits:
  assumes "d \<noteq> []" "list_all is_digit d"
  shows "js_Number d = Fin (of_nat (digits_val d))"
proof -
  from assms obtain c cs where d: "d = c # cs" by (cases d) auto
  from assms have hd: "is_digit (hd d)" and la: "is_digit (last d)"
    by (auto simp: list_all_iff)
  have tr: "js_trim (c # cs) = c # cs" using js_trim_plain[of d] assms(1) hd la d by simp
  have nd: "non_decimal_literal (c # cs) = None"
    using assms(2) d by (intro non_decimal_digits) (auto simp: list_all_iff dest: in_set_dropD)
  have sg: "c \<noteq> CHR ''-''" "c \<noteq> CHR ''+''"
    using hd d by (auto simp: is_digit_def)
  have inf: "c # cs \<noteq> ''Infinity''"
    using digits_not_Infinity[OF assms(2)] d by simp
  have sud: "str_unsigned_decimal (c # cs) = Some (of_nat (digits_val (c # cs)))"
    using str_unsigned_decimal_digits[OF assms] d by simp
  have "js_Number (c # cs) = Fin (of_nat (digits_val (c # cs)))"
    unfolding js_Number_def tr Let_def nd using sg inf by (simp add: sud)
  then show ?thesis by (simp add: d)
qed

lemma js_Number_minus_digits:
  assumes "d \<noteq> []" "list_all is_digit d"
  shows "js_Number (CHR ''-'' # d) = Fin (- of_nat (digits_val d))"
proof -
  from assms have la: "is_digit (last d)" by (auto simp: list_all_iff)
  have tr: "js_trim (CHR ''-'' # d) = CHR ''-'' # d"
    using js_trim_plain[of "CHR ''-'' # d"] assms(1) la by simp
  have nd: "non_decimal_literal (CHR ''-'' # d) = None"
    using assms(2) by (intro non_decimal_digits) simp
  have inf: "d \<noteq> ''Infinity''"
    using digits_not_Infinity[OF assms(2)] by simp
  show ?thesis
    unfolding js_Number_def tr Let_def nd using inf
    by (simp add: str_unsigned_decimal_digits[OF assms])
qed


lemma js_Number_toString: "js_Number (js_int_toString n) = Fin (of_int n)"
proof (cases "n < 0")
  case True
  have "js_Number (CHR ''-'' # digits_of (nat (- n))) = Fin (- of_nat (digits_val (digits_of (nat (- n)))))"
    by (rule js_Number_minus_digits[OF digits_of_nonempty digits_of_all_digits])
  also have "\<dots> = Fin (- of_nat (nat (- n)))"
    by (simp only: digits_val_digits_of)
  also have "\<dots> = Fin (of_int n)" using True by simp
  finally show ?thesis using True by (simp only: js_int_toString_def if_True)
next
  case False
  have "js_Number (digits_of (nat n)) = Fin (of_nat (digits_val (digits_of (nat n))))"
    by (rule js_Number_digits[OF digits_of_nonempty digits_of_all_digits])
  also have "\<dots> = Fin (of_nat (nat n))"
    by (simp only: digits_val_digits_of)
  also have "\<dots> = Fin (of_int n)" using False by simp
  finally show ?thesis using False by (simp only: js_int_toString_def if_False)
qed

lemma sha256_abc:
  "hex_of (sha256 (Buffer_from ''abc'')) =
     ''ba7816bf8f01cfea414140de5dae2223b00361a396177a9cb410ff61f20015ad''"
  by code_simp

lemma length_hex_of: "length (hex_of bs) = 2 * length bs"
  by (induction bs) (simp_all add: hex_of_def)

lemma length_state_bytes: "length (state_bytes s) = 32"
  by (induct s rule: state_bytes.induct) (simp add: bytes_of_u32_def)

lemma length_sha256: "length (sha256 m) = 32"
  by (simp add: sha256_def Let_def length_state_bytes)

lemma length_hmac_sha256: "length (hmac_sha256 k m) = 32"
  by (simp add: hmac_sha256_def Let_def length_sha256)

lemma length_createHmac_sha256_hex: "length (createHmac_sha256_hex k p) = 64"
  by (simp add: createHmac_sha256_hex_def length_hex_of length_hmac_sha256)

lemma timingSafeEqual_same: "timingSafeEqual b b = Inr True"
  by (simp add: timingSafeEqual_def)

lemma verify_window:
  assumes "truthy secret" "js_Number ts = Fin (of_int t)"
  shows "verifySignedAttendanceRequest secret now type uid ts sig =
     (if now - t > 600000 \<or> now - t < 0 then Inr False
      else timingSafeEqual
        (Buffer_from (createHmac_sha256_hex (or_else secret []) (type_str type @ '':'' @ uid @ '':'' @ ts)))
        (Buffer_from sig))"
proof -
  have g: "js_greater (Fin (of_int now - of_int t)) (Fin 600000) = (now - t > 600000)"
    unfolding js_greater_def js_less.simps
    by (metis of_int_diff of_int_less_iff of_int_numeral)
  have l: "js_less (Fin (of_int now - of_int t)) (Fin 0) = (now - t < 0)"
    by simp
  show ?thesis
    using assms(1) by (simp add: verifySignedAttendanceRequest_def assms(2) g l Let_def)
qed

section \<open>Signed links: the claims\<close>

lemma length_Buffer_from: "length (Buffer_from s) = length s"
  by (simp add: Buffer_from_def)

lemma verify_throws:
  assumes "truthy secret" "js_Number ts = Fin (of_int t)" "0 \<le> now - t" "now - t \<le> 600000"
    "length sig \<noteq> 64"
  shows "verifySignedAttendanceRequest secret now type uid ts sig =
     Inl (RangeError ''Input buffers must have the same byte length'')"
  using assms
  by (simp add: verify_window timingSafeEqual_def length_Buffer_from length_createHmac_sha256_hex)

lemma js_Number_1000: "js_Number ''1000'' = Fin (of_int 1000)"
proof -
  have "js_Number ''1000'' = Fin (of_nat (digits_val ''1000''))"
    by (rule js_Number_digits) (simp_all add: is_digit_def)
  then show ?thesis by (simp add: digits_val_def digit_val_def)
qed

text \<open>
  Claim C2 (the verifier never throws). The claim fails on the code: with the secret
  configured and a timestamp inside the window, a signature of 3 bytes reaches
  \<open>crypto.timingSafeEqual\<close> beside the 64-byte digest, and the call throws a
  \<open>RangeError\<close> instead of returning \<open>false\<close>.
\<close>

theorem verify_throws_on_short_signature:
  "verifySignedAttendanceRequest (Some ''secret'') 1000 Checkin ''U1'' ''1000'' ''abc'' =
     Inl (RangeError ''Input buffers must have the same byte length'')"
  by (rule verify_throws[where t = 1000]) (simp_all add: truthy_def js_Number_1000)

text \<open>
  Claim C4 (signature round trip with time window). With the secret and the base URL
  configured, \<open>generateSignedAttendanceUrl\<close> at time \<open>issuedAtMs\<close> returns the URL that
  carries the subject, the timestamp \<open>issuedAtMs\<close> in decimal and the hex HMAC of
  \<open>type:subject:timestamp\<close>; verifying that timestamp and signature for the same type and
  subject at time \<open>now\<close> returns \<open>true\<close> when \<open>0 \<le> now - issuedAtMs \<le> 600000\<close> and
  \<open>false\<close> when the elapsed time is negative or above ten minutes.
\<close>

theorem signature_round_trip:
  assumes "truthy secret" and "truthy base"
  shows "generateSignedAttendanceUrl secret base issuedAtMs type uid =
           Inr (or_else base [] @ ''/api/attendance/'' @ type_str type @ ''?u='' @
                encodeURIComponent uid @ ''&ts='' @ js_int_toString issuedAtMs @ ''&sig='' @
                createHmac_sha256_hex (or_else secret [])
                  (type_str type @ '':'' @ uid @ '':'' @ js_int_toString issuedAtMs))
         \<and> verifySignedAttendanceRequest secret now type uid (js_int_toString issuedAtMs)
             (createHmac_sha256_hex (or_else secret [])
                (type_str type @ '':'' @ uid @ '':'' @ js_int_toString issuedAtMs))
           = Inr (0 \<le> now - issuedAtMs \<and> now - issuedAtMs \<le> 10 * 60 * 1000)"
proof
  show "generateSignedAttendanceUrl secret base issuedAtMs type uid =
           Inr (or_else base [] @ ''/api/attendance/'' @ type_str type @ ''?u='' @
                encodeURIComponent uid @ ''&ts='' @ js_int_toString issuedAtMs @ ''&sig='' @
                createHmac_sha256_hex (or_else secret [])
                  (type_str type @ '':'' @ uid @ '':'' @ js_int_toString issuedAtMs))"
    using assms by (simp add: generateSignedAttendanceUrl_def Let_def)
next
  show "verifySignedAttendanceRequest secret now type uid (js_int_toString issuedAtMs)
             (createHmac_sha256_hex (or_else secret [])
                (type_str type @ '':'' @ uid @ '':'' @ js_int_toString issuedAtMs))
           = Inr (0 \<le> now - issuedAtMs \<and> now - issuedAtMs \<le> 10 * 60 * 1000)"
    using assms(1)
    by (auto simp add: verify_window[OF _ js_Number_toString] timingSafeEqual_same)
qed

theorem signature_round_trip_witness:
  "verifySignedAttendanceRequest (Some ''s3cret'') 601000 Checkin ''U1'' (js_int_toString 1000)
     (createHmac_sha256_hex ''s3cret'' (''checkin:U1:'' @ js_int_toString 1000)) = Inr True
   \<and> verifySignedAttendanceRequest (Some ''s3cret'') 601001 Checkin ''U1'' (js_int_toString 1000)
     (createHmac_sha256_hex ''s3cret'' (''checkin:U1:'' @ js_int_toString 1000)) = Inr False
   \<and> verifySignedAttendanceRequest (Some ''s3cret'') 999 Checkin ''U1'' (js_int_toString 1000)
     (createHmac_sha256_hex ''s3cret'' (''checkin:U1:'' @ js_int_toString 1000)) = Inr False"
  using signature_round_trip[of "Some ''s3cret''" "Some ''https://bx.example''" 1000 Checkin "''U1''" 601000]
    signature_round_trip[of "Some ''s3cret''" "Some ''https://bx.example''" 1000 Checkin "''U1''" 601001]
    signature_round_trip[of "Some ''s3cret''" "Some ''https://bx.example''" 1000 Checkin "''U1''" 999]
  by (simp add: truthy_def or_else_def)

lemma js_Number_abc: "js_Number ''abc'' = NaN"
  by code_simp

text \<open>
  Claim C9 (a timestamp that is not a number). With the secret configured, when
  \<open>Number(ts)\<close> is \<open>NaN\<close> neither the expiry comparison nor the future-timestamp
  comparison holds, at any time \<open>now\<close>, and the result of the verifier is the result of the
  constant-time comparison of the supplied signature with the HMAC of
  \<open>type:slackUserId:ts\<close>.
\<close>

theorem nan_timestamp_skips_window:
  assumes "truthy secret" and "js_Number ts = NaN"
  shows "\<not> js_greater (js_minus (Fin (of_int now)) (js_Number ts)) (Fin (10 * 60 * 1000))
       \<and> \<not> js_less (js_minus (Fin (of_int now)) (js_Number ts)) (Fin 0)
       \<and> verifySignedAttendanceRequest secret now type uid ts sig =
           timingSafeEqual
             (Buffer_from (createHmac_sha256_hex (or_else secret [])
                             (type_str type @ '':'' @ uid @ '':'' @ ts)))
             (Buffer_from sig)"
  using assms by (simp add: verifySignedAttendanceRequest_def js_greater_def Let_def)

theorem nan_timestamp_skips_window_witness:
  "js_Number ''abc'' = NaN
   \<and> verifySignedAttendanceRequest (Some ''s3cret'') 1700000000000 Checkin ''U1'' ''abc''
        (createHmac_sha256_hex ''s3cret'' ''checkin:U1:abc'') = Inr True
   \<and> verifySignedAttendanceRequest (Some ''s3cret'') 0 Checkin ''U1'' ''abc''
        (createHmac_sha256_hex ''s3cret'' ''checkin:U1:abc'') = Inr True"
  using nan_timestamp_skips_window[of "Some ''s3cret''" "''abc''" 1700000000000 Checkin "''U1''"
      "createHmac_sha256_hex ''s3cret'' ''checkin:U1:abc''"]
    nan_timestamp_skips_window[of "Some ''s3cret''" "''abc''" 0 Checkin "''U1''"
      "createHmac_sha256_hex ''s3cret'' ''checkin:U1:abc''"]
  by (simp add: truthy_def or_else_def js_Number_abc timingSafeEqual_same)

section \<open>Check-in on the attendance tab\<close>



lemma findRowIndex_None: "findRowIndex P rows = None \<longleftrightarrow> (\<forall>r \<in> set rows. \<not> P r)"
  by (induction rows) auto


lemma find_findRowIndex: "find P rows = map_option (\<lambda>i. rows ! i) (findRowIndex P rows)"
  by (induction rows) (auto simp: option.map_comp comp_def)






lemma recordCheckIn_Inr_cases:
  assumes "recordCheckIn api clock u n rows = (Inr res, rows')"
  shows "get_ok api \<and>
    ((\<exists>r. find (is_checkin_row (datePk (nowPk clock)) u) rows = Some r \<and> rows' = rows \<and>
          alreadyCheckedIn res \<and> checkInTime res = cell r 3) \<or>
     (find (is_checkin_row (datePk (nowPk clock)) u) rows = None \<and> \<not> alreadyCheckedIn res \<and>
      rows' = rows @ [[datePk (nowPk clock), u, n, timePk (nowPk clock), [], [], nowIso (nowPk clock), []]]))"
  using assms by (auto simp: recordCheckIn_def Let_def split: if_splits option.splits)



section \<open>Rows without a check-in time\<close>





section \<open>The reminder queue\<close>



lemma length_write_cell: "length (write_cell r i v) = max (Suc i) (length r)"
  by (simp add: write_cell_def pad_row_def)







lemma markReminderStatus_rows:
  "snd (markReminderStatus api d u st rows) = rows \<or>
   (\<exists>i. findRowIndex (is_queue_row d u) rows = Some i \<and>
        snd (markReminderStatus api d u st rows) = rows[i := write_cell (rows ! i) 5 (status_str st)])"
  by (simp add: markReminderStatus_def split: option.splits)





section \<open>Checkout\<close>

lemma verify_accepts:
  assumes "truthy secret" "js_Number ts = Fin (of_int t)" "0 \<le> now - t" "now - t \<le> 600000"
  shows "verifySignedAttendanceRequest secret now type uid ts
     (createHmac_sha256_hex (or_else secret []) (type_str type @ '':'' @ uid @ '':'' @ ts)) = Inr True"
  using assms by (simp add: verify_window timingSafeEqual_same)

lemma attendance_say [simp]: "attendance (say l w) = attendance w"
  by (simp add: say_def)

lemma attendance_call [simp]: "attendance (call c w) = attendance w"
  by (simp add: call_def)

lemma reminderQueue_say [simp]: "reminderQueue (say l w) = reminderQueue w"
  by (simp add: say_def)

lemma reminderQueue_call [simp]: "reminderQueue (call c w) = reminderQueue w"
  by (simp add: call_def)

lemma console_say [simp]: "console (say l w) = console w @ [l]"
  by (simp add: say_def)

lemma console_call [simp]: "console (call c w) = console w"
  by (simp add: call_def)

lemma no_checkin_row_iff:
  "(\<forall>x \<in> set rows. row_key x = (Some d, Some u) \<longrightarrow> \<not> has_checkin x) \<longleftrightarrow>
   (\<forall>x \<in> set rows. \<not> is_checkin_row d u x)"
  by (auto simp: is_checkin_row_def row_key_def has_checkin_def)

lemma recordCheckOut_no_checkin:
  assumes "\<forall>x \<in> set rows. \<not> is_checkin_row (datePk (nowPk clock)) u x"
  shows "recordCheckOut api hb clock u n rows =
    (if get_ok api
     then Inr \<lparr> canCheckout = False, alreadyCheckedOut = None, checkOutTime = None,
                co_checkInTime = None, co_date = None, totalHours = None \<rparr>
     else Inl (ApiError ''spreadsheets.values.get''), rows)"
  using assms findRowIndex_None[of "is_checkin_row (datePk (nowPk clock)) u" rows]
  by (simp add: recordCheckOut_def Let_def)

text \<open>
  Claim C5 (checkout precondition). When the attendance tab holds no row with the key of
  the day and the subject and a non-empty check-in time: \<open>recordCheckOut\<close> leaves the tab as
  it was and, its read going through, returns \<open>canCheckout = false\<close>; the checkout handler
  leaves the tab as it was on every path, and once the request has passed the signature
  check and the network check, the name lookup has answered and the read of the tab goes
  through, it answers with the page ``No check-in found for today. Please check in first.''
\<close>

theorem checkout_requires_checkin:
  assumes no_row: "\<forall>x \<in> set (attendance w).
      row_key x = (Some (datePk (nowPk (checkout_clock io))), Some (or_else (param_u req) []))
      \<longrightarrow> \<not> has_checkin x"
  shows "snd (recordCheckOut api hb (checkout_clock io) (or_else (param_u req) []) n (attendance w))
           = attendance w
    \<and> (get_ok api \<longrightarrow>
         fst (recordCheckOut api hb (checkout_clock io) (or_else (param_u req) []) n (attendance w))
           = Inr \<lparr> canCheckout = False, alreadyCheckedOut = None, checkOutTime = None,
                   co_checkInTime = None, co_date = None, totalHours = None \<rparr>)
    \<and> attendance (snd (checkout_GET e hb req io w)) = attendance w
    \<and> (truthy (param_u req) \<and> truthy (param_ts req) \<and> truthy (param_sig req)
        \<and> verifySignedAttendanceRequest (ATTENDANCE_SIGNING_SECRET e) (co_verify_now io) Checkout
             (or_else (param_u req) []) (or_else (param_ts req) []) (or_else (param_sig req) [])
           = Inr True
        \<and> fst (isIpAllowed (OFFICE_IP_ALLOWLIST e) (getClientIp req) (allowedIps w))
        \<and> (\<exists>names. co_users_info io = Inr names)
        \<and> get_ok (checkout_api io)
       \<longrightarrow> fst (checkout_GET e hb req io w) =
             Html ''Check-out''
               (cross_mark @ '' No check-in found for today. Please check in first.''))"
proof -
  let ?u = "or_else (param_u req) []"
  from no_row have none: "\<forall>x \<in> set (attendance w). \<not> is_checkin_row (datePk (nowPk (checkout_clock io))) ?u x"
    by (simp add: no_checkin_row_iff)
  note out = recordCheckOut_no_checkin[OF none]
  have 1: "snd (recordCheckOut api hb (checkout_clock io) ?u n (attendance w)) = attendance w"
    by (simp add: out)
  have 2: "get_ok api \<longrightarrow>
         fst (recordCheckOut api hb (checkout_clock io) ?u n (attendance w))
           = Inr \<lparr> canCheckout = False, alreadyCheckedOut = None, checkOutTime = None,
                   co_checkInTime = None, co_date = None, totalHours = None \<rparr>"
    by (simp add: out)
  have 3: "attendance (snd (checkout_GET e hb req io w)) = attendance w"
    by (simp add: checkout_GET_def Let_def out checkout_failed_def
        split: sum.splits prod.splits bool.splits)
  have 4: "truthy (param_u req) \<and> truthy (param_ts req) \<and> truthy (param_sig req)
        \<and> verifySignedAttendanceRequest (ATTENDANCE_SIGNING_SECRET e) (co_verify_now io) Checkout
             ?u (or_else (param_ts req) []) (or_else (param_sig req) []) = Inr True
        \<and> fst (isIpAllowed (OFFICE_IP_ALLOWLIST e) (getClientIp req) (allowedIps w))
        \<and> (\<exists>names. co_users_info io = Inr names)
        \<and> get_ok (checkout_api io)
       \<longrightarrow> fst (checkout_GET e hb req io w) =
             Html ''Check-out''
               (cross_mark @ '' No check-in found for today. Please check in first.'')"
  proof
    assume g: "truthy (param_u req) \<and> truthy (param_ts req) \<and> truthy (param_sig req)
        \<and> verifySignedAttendanceRequest (ATTENDANCE_SIGNING_SECRET e) (co_verify_now io) Checkout
             ?u (or_else (param_ts req) []) (or_else (param_sig req) []) = Inr True
        \<and> fst (isIpAllowed (OFFICE_IP_ALLOWLIST e) (getClientIp req) (allowedIps w))
        \<and> (\<exists>names. co_users_info io = Inr names)
        \<and> get_ok (checkout_api io)"
    then have ne: "?u \<noteq> []" "or_else (param_ts req) [] \<noteq> []" "or_else (param_sig req) [] \<noteq> []"
      by (auto simp: truthy_def or_else_def split: option.splits)
    from g obtain rn dn where names: "co_users_info io = Inr (rn, dn)" by (cases "co_users_info io") auto
    obtain allowed cache where ip: "isIpAllowed (OFFICE_IP_ALLOWLIST e) (getClientIp req) (allowedIps w) = (allowed, cache)"
      by (cases "isIpAllowed (OFFICE_IP_ALLOWLIST e) (getClientIp req) (allowedIps w)")
    with g have allowed by simp
    with g ne names ip show "fst (checkout_GET e hb req io w) =
             Html ''Check-out''
               (cross_mark @ '' No check-in found for today. Please check in first.'')"
      by (simp add: checkout_GET_def Let_def out)
  qed
  from 1 2 3 4 show ?thesis by blast
qed

lemma office_gate_ip:
  "isIpAllowed (Some ''203.0.113.7, 198.51.100.2'')
     (getClientIp (signed_request type u ts)) None =
   (True, Some [''203.0.113.7'', ''198.51.100.2''])"
proof -
  have "isIpAllowed (Some ''203.0.113.7, 198.51.100.2'') (Some ''203.0.113.7'') None =
      (True, Some [''203.0.113.7'', ''198.51.100.2''])"
    by code_simp
  moreover have "js_trim (hd (split_on CHR '','' ''203.0.113.7, 10.0.0.1'')) = ''203.0.113.7''"
    by code_simp
  ultimately show ?thesis
    by (simp add: getClientIp_def signed_request_def truthy_def or_else_def)
qed

lemma office_gate_signature:
  assumes "0 \<le> now - 1000" "now - 1000 \<le> 600000"
  shows "verifySignedAttendanceRequest (Some ''s3cret'') now type u ''1000''
     (createHmac_sha256_hex ''s3cret'' (type_str type @ '':'' @ u @ '':'' @ ''1000'')) = Inr True"
  using verify_accepts[of "Some ''s3cret''" "''1000''" 1000 now type u] assms
  by (simp add: truthy_def or_else_def js_Number_1000)

theorem checkout_requires_checkin_witness:
  "fst (checkout_GET office_env no_hours (signed_request Checkout ''U3'' ''1000'')
      \<lparr> co_verify_now = 2000, co_users_info = Inr (Some ''Cara'', None),
        checkout_clock = pk_clock ''2025-01-15T13:00:00.000Z'' ''18'' ''00'',
        checkout_api = sheets_up,
        co_reply_clock = pk_clock ''2025-01-15T13:00:01.000Z'' ''18'' ''00'',
        co_post_message = Inr () \<rparr>
      (office_world [[''2025-01-15'', ''U1'', ''Ann'', ''09:05:00'']] [])) =
     Html ''Check-out'' (cross_mark @ '' No check-in found for today. Please check in first.'')
   \<and> attendance (snd (checkout_GET office_env no_hours (signed_request Checkout ''U3'' ''1000'')
      \<lparr> co_verify_now = 2000, co_users_info = Inr (Some ''Cara'', None),
        checkout_clock = pk_clock ''2025-01-15T13:00:00.000Z'' ''18'' ''00'',
        checkout_api = sheets_up,
        co_reply_clock = pk_clock ''2025-01-15T13:00:01.000Z'' ''18'' ''00'',
        co_post_message = Inr () \<rparr>
      (office_world [[''2025-01-15'', ''U1'', ''Ann'', ''09:05:00'']] []))) =
     [[''2025-01-15'', ''U1'', ''Ann'', ''09:05:00'']]
   \<and> recordCheckOut sheets_up no_hours (pk_clock ''2025-01-15T13:00:00.000Z'' ''18'' ''00'')
       ''U3'' ''Cara'' [[''2025-01-15'', ''U1'', ''Ann'', ''09:05:00'']] =
     (Inr \<lparr> canCheckout = False, alreadyCheckedOut = None, checkOutTime = None,
            co_checkInTime = None, co_date = None, totalHours = None \<rparr>,
      [[''2025-01-15'', ''U1'', ''Ann'', ''09:05:00'']])"
proof -
  let ?io = "\<lparr> co_verify_now = 2000, co_users_info = Inr (Some ''Cara'', None),
        checkout_clock = pk_clock ''2025-01-15T13:00:00.000Z'' ''18'' ''00'',
        checkout_api = sheets_up,
        co_reply_clock = pk_clock ''2025-01-15T13:00:01.000Z'' ''18'' ''00'',
        co_post_message = Inr () \<rparr>"
  let ?w = "office_world [[''2025-01-15'', ''U1'', ''Ann'', ''09:05:00'']] []"
  let ?req = "signed_request Checkout ''U3'' ''1000''"
  have no_row: "\<forall>x \<in> set (attendance ?w).
      row_key x = (Some (datePk (nowPk (checkout_clock ?io))), Some (or_else (param_u ?req) []))
      \<longrightarrow> \<not> has_checkin x"
    by (simp add: office_world_def row_key_def cell_def signed_request_def or_else_def)
  have sig: "verifySignedAttendanceRequest (ATTENDANCE_SIGNING_SECRET office_env)
      (co_verify_now ?io) Checkout (or_else (param_u ?req) []) (or_else (param_ts ?req) [])
      (or_else (param_sig ?req) []) = Inr True"
    using office_gate_signature[of 2000 Checkout "''U3''"] length_createHmac_sha256_hex[of "''s3cret''" "''checkout:U3:1000''"]
    by (auto simp: office_env_def signed_request_def or_else_def)
  have ip: "fst (isIpAllowed (OFFICE_IP_ALLOWLIST office_env) (getClientIp ?req) (allowedIps ?w))"
    by (simp add: office_env_def office_world_def office_gate_ip)
  have params: "truthy (param_u ?req)" "truthy (param_ts ?req)" "truthy (param_sig ?req)"
    using length_createHmac_sha256_hex[of "''s3cret''" "''checkout:U3:1000''"]
    by (auto simp: signed_request_def truthy_def)
  from checkout_requires_checkin[OF no_row, of sheets_up no_hours "''Cara''" office_env]
    sig ip params
  show ?thesis
    by (simp add: sheets_up_def office_world_def signed_request_def or_else_def prod_eq_iff)
qed

section \<open>Check-in and the reminder step\<close>

lemma attendance_cancelReminder [simp]: "attendance (cancelReminder io u w) = attendance w"
  by (simp add: cancelReminder_def cancel_failed_def Let_def
      split: sum.splits option.splits prod.splits)

lemma cancelReminder_lookup_fails:
  "\<not> get_ok (lookup_api io) \<Longrightarrow>
   cancelReminder io u w = say (Warn ''Error checking for reminder:'') w"
  by (simp add: cancelReminder_def findReminderForUser_def Let_def)

lemma cancelReminder_delete_fails:
  assumes "findReminderForUser (lookup_api io) (getPkDateStr (reminder_clock io)) u (reminderQueue w)
      = Inr (Some rem)" "status rem = ''scheduled''" "delete_scheduled io = Inl err"
  shows "cancelReminder io u w =
    cancel_failed u (call (DeleteScheduledMessage (imChannelId rem) (scheduledMessageId rem)) w)"
  using assms by (simp add: cancelReminder_def Let_def)

lemma cancelReminder_mark_fails:
  assumes "findReminderForUser (lookup_api io) (getPkDateStr (reminder_clock io)) u (reminderQueue w)
      = Inr (Some rem)" "status rem = ''scheduled''" "delete_scheduled io = Inr x"
    "fst (markReminderStatus (mark_api io) (getPkDateStr (reminder_clock io)) u StCancelled
           (reminderQueue w)) = Inl err"
  shows "console (cancelReminder io u w) =
    console w @ [Warn (''Failed to cancel reminder for user '' @ u @ '':'')]"
proof -
  obtain res q where m: "markReminderStatus (mark_api io) (getPkDateStr (reminder_clock io)) u
      StCancelled (reminderQueue w) = (res, q)"
    by (cases "markReminderStatus (mark_api io) (getPkDateStr (reminder_clock io)) u StCancelled
          (reminderQueue w)")
  with assms(4) have "res = Inl err" by simp
  with assms(1-3) m show ?thesis
    by (simp add: cancelReminder_def cancel_failed_def Let_def)
qed

lemma checkin_GET_claimed:
  assumes params: "truthy (param_u req)" "truthy (param_ts req)" "truthy (param_sig req)"
    and sig: "verifySignedAttendanceRequest (ATTENDANCE_SIGNING_SECRET e) (verify_now io) Checkin
        (or_else (param_u req) []) (or_else (param_ts req) []) (or_else (param_sig req) []) = Inr True"
    and ip: "isIpAllowed (OFFICE_IP_ALLOWLIST e) (getClientIp req) (allowedIps w) = (True, cache)"
    and names: "users_info io = Inr (rn, dn)"
    and claimed: "recordCheckIn (checkin_api io) (checkin_clock io) (or_else (param_u req) [])
        (or_else rn (or_else dn (or_else (param_u req) []))) (attendance w) = (Inr r, rows')"
      "\<not> alreadyCheckedIn r"
    and announce: "truthy (SLACK_ATTENDANCE_CHANNEL_ID e) \<longrightarrow> (\<exists>x. post_message io = Inr x)"
  shows "\<exists>w'. checkin_GET e req io w =
      (Html ''Check-in''
         (check_mark @ '' Check-in recorded for '' @ or_else rn (or_else dn (or_else (param_u req) [])) @
          '' at '' @ timePkHHmm (nowPk (reply_clock io)) @ ''.''), w')
    \<and> attendance w' = rows'
    \<and> console w' = console (cancelReminder io (or_else (param_u req) [])
         ((call (UsersInfo (or_else (param_u req) [])) (w\<lparr>allowedIps := cache\<rparr>))\<lparr>attendance := rows'\<rparr>))"
proof -
  from params have ne: "or_else (param_u req) [] \<noteq> []" "or_else (param_ts req) [] \<noteq> []"
      "or_else (param_sig req) [] \<noteq> []"
    by (auto simp: truthy_def or_else_def split: option.splits)
  show ?thesis
  proof (cases "truthy (SLACK_ATTENDANCE_CHANNEL_ID e)")
    case True
    with announce obtain x where "post_message io = Inr x" by blast
    with True ne sig ip names claimed show ?thesis
      by (simp add: checkin_GET_def Let_def)
  next
    case False
    with ne sig ip names claimed show ?thesis
      by (simp add: checkin_GET_def Let_def)
  qed
qed

lemma checkin_GET_reminder_independent:
  "fst (checkin_GET e req (io\<lparr>lookup_api := la, delete_scheduled := ds, mark_api := ma\<rparr>) w) =
     fst (checkin_GET e req io w)
   \<and> attendance (snd (checkin_GET e req
         (io\<lparr>lookup_api := la, delete_scheduled := ds, mark_api := ma\<rparr>) w)) =
     attendance (snd (checkin_GET e req io w))"
  by (simp add: checkin_GET_def Let_def checkin_failed_def split: sum.splits)

text \<open>
  Claim C6 (a failed reminder cancellation does not fail the check-in). Take a request that
  passed the signature and network checks, a name lookup that answered, and a call of
  \<open>recordCheckIn\<close> that claimed the row (\<open>alreadyCheckedIn = false\<close>). Whatever happens in the
  reminder step (the lookup of the queue entry is rejected, Slack refuses to delete the
  scheduled message, or the status update fails), the handler returns the page ``Check-in
  recorded for ... at ...'' provided the announcement that follows is posted (or no channel is
  configured), and the attendance tab is the one \<open>recordCheckIn\<close> left, with the new row.
  Each of the three failures leaves a warning on the console. On every path of the handler
  the page returned and the attendance tab are the same whatever the three calls of the
  reminder step answer.
\<close>

theorem checkin_survives_reminder_failure:
  assumes params: "truthy (param_u req)" "truthy (param_ts req)" "truthy (param_sig req)"
    and sig: "verifySignedAttendanceRequest (ATTENDANCE_SIGNING_SECRET e) (verify_now io) Checkin
        (or_else (param_u req) []) (or_else (param_ts req) []) (or_else (param_sig req) []) = Inr True"
    and ip: "fst (isIpAllowed (OFFICE_IP_ALLOWLIST e) (getClientIp req) (allowedIps w))"
    and names: "users_info io = Inr (rn, dn)"
    and claimed: "recordCheckIn (checkin_api io) (checkin_clock io) (or_else (param_u req) [])
        (or_else rn (or_else dn (or_else (param_u req) []))) (attendance w) = (Inr r, rows')"
      "\<not> alreadyCheckedIn r"
    and announce: "truthy (SLACK_ATTENDANCE_CHANNEL_ID e) \<longrightarrow> (\<exists>x. post_message io = Inr x)"
  shows "fst (checkin_GET e req io w) =
      Html ''Check-in''
        (check_mark @ '' Check-in recorded for '' @ or_else rn (or_else dn (or_else (param_u req) [])) @
         '' at '' @ timePkHHmm (nowPk (reply_clock io)) @ ''.'')
    \<and> attendance (snd (checkin_GET e req io w)) = rows'
    \<and> rows' = attendance w @
        [[datePk (nowPk (checkin_clock io)), or_else (param_u req) [],
          or_else rn (or_else dn (or_else (param_u req) [])), timePk (nowPk (checkin_clock io)),
          [], [], nowIso (nowPk (checkin_clock io)), []]]
    \<and> (\<not> get_ok (lookup_api io) \<longrightarrow>
          Warn ''Error checking for reminder:'' \<in> set (console (snd (checkin_GET e req io w))))
    \<and> ((\<exists>rem. findReminderForUser (lookup_api io) (getPkDateStr (reminder_clock io))
                 (or_else (param_u req) []) (reminderQueue w) = Inr (Some rem)
               \<and> status rem = ''scheduled'')
        \<and> ((\<exists>err. delete_scheduled io = Inl err)
           \<or> (\<exists>err. fst (markReminderStatus (mark_api io) (getPkDateStr (reminder_clock io))
                          (or_else (param_u req) []) StCancelled (reminderQueue w)) = Inl err))
        \<longrightarrow> Warn (''Failed to cancel reminder for user '' @ or_else (param_u req) [] @ '':'')
              \<in> set (console (snd (checkin_GET e req io w))))
    \<and> (\<forall>la ds ma.
          fst (checkin_GET e req (io\<lparr>lookup_api := la, delete_scheduled := ds, mark_api := ma\<rparr>) w)
            = fst (checkin_GET e req io w)
          \<and> attendance (snd (checkin_GET e req
                (io\<lparr>lookup_api := la, delete_scheduled := ds, mark_api := ma\<rparr>) w))
            = attendance (snd (checkin_GET e req io w)))"
proof -
  let ?u = "or_else (param_u req) []"
  obtain allowed cache where ipc: "isIpAllowed (OFFICE_IP_ALLOWLIST e) (getClientIp req) (allowedIps w) = (allowed, cache)"
    by (cases "isIpAllowed (OFFICE_IP_ALLOWLIST e) (getClientIp req) (allowedIps w)")
  with ip have ip': "isIpAllowed (OFFICE_IP_ALLOWLIST e) (getClientIp req) (allowedIps w) = (True, cache)"
    by simp
  let ?w3 = "(call (UsersInfo ?u) (w\<lparr>allowedIps := cache\<rparr>))\<lparr>attendance := rows'\<rparr>"
  from checkin_GET_claimed[OF params sig ip' names claimed announce]
  obtain w' where run: "checkin_GET e req io w =
      (Html ''Check-in''
         (check_mark @ '' Check-in recorded for '' @ or_else rn (or_else dn ?u) @
          '' at '' @ timePkHHmm (nowPk (reply_clock io)) @ ''.''), w')"
    and att: "attendance w' = rows'"
    and con: "console w' = console (cancelReminder io ?u ?w3)"
    by blast
  have q3: "reminderQueue ?w3 = reminderQueue w" by (simp add: call_def)
  have rows: "rows' = attendance w @
        [[datePk (nowPk (checkin_clock io)), ?u, or_else rn (or_else dn ?u),
          timePk (nowPk (checkin_clock io)), [], [], nowIso (nowPk (checkin_clock io)), []]]"
    using recordCheckIn_Inr_cases[OF claimed(1)] claimed(2) by auto
  have lookup: "\<not> get_ok (lookup_api io) \<longrightarrow>
      Warn ''Error checking for reminder:'' \<in> set (console (snd (checkin_GET e req io w)))"
    by (simp add: run con cancelReminder_lookup_fails)
  have cancel: "(\<exists>rem. findReminderForUser (lookup_api io) (getPkDateStr (reminder_clock io)) ?u
                 (reminderQueue w) = Inr (Some rem) \<and> status rem = ''scheduled'')
        \<and> ((\<exists>err. delete_scheduled io = Inl err)
           \<or> (\<exists>err. fst (markReminderStatus (mark_api io) (getPkDateStr (reminder_clock io)) ?u
                          StCancelled (reminderQueue w)) = Inl err))
        \<longrightarrow> Warn (''Failed to cancel reminder for user '' @ ?u @ '':'')
              \<in> set (console (snd (checkin_GET e req io w)))"
  proof
    assume a: "(\<exists>rem. findReminderForUser (lookup_api io) (getPkDateStr (reminder_clock io)) ?u
                 (reminderQueue w) = Inr (Some rem) \<and> status rem = ''scheduled'')
        \<and> ((\<exists>err. delete_scheduled io = Inl err)
           \<or> (\<exists>err. fst (markReminderStatus (mark_api io) (getPkDateStr (reminder_clock io)) ?u
                          StCancelled (reminderQueue w)) = Inl err))"
    then obtain rem where rem: "findReminderForUser (lookup_api io) (getPkDateStr (reminder_clock io)) ?u
        (reminderQueue ?w3) = Inr (Some rem)" "status rem = ''scheduled''"
      using q3 by auto
    have "Warn (''Failed to cancel reminder for user '' @ ?u @ '':'') \<in> set (console (cancelReminder io ?u ?w3))"
    proof (cases "delete_scheduled io")
      case (Inl err)
      show ?thesis
        by (simp add: cancelReminder_delete_fails[OF rem Inl] cancel_failed_def)
    next
      case (Inr x)
      with a obtain err where "fst (markReminderStatus (mark_api io) (getPkDateStr (reminder_clock io)) ?u
          StCancelled (reminderQueue ?w3)) = Inl err"
        using q3 by auto
      from cancelReminder_mark_fails[OF rem Inr this] show ?thesis by simp
    qed
    then show "Warn (''Failed to cancel reminder for user '' @ ?u @ '':'')
        \<in> set (console (snd (checkin_GET e req io w)))"
      by (simp add: run con)
  qed
  from run att rows lookup cancel checkin_GET_reminder_independent[where e = e and req = req and io = io and w = w]
  show ?thesis by simp
qed

theorem checkin_survives_reminder_failure_witness:
  "fst (checkin_GET office_env (signed_request Checkin ''U2'' ''1000'')
      \<lparr> verify_now = 2000, users_info = Inr (Some ''Ben'', None),
        checkin_clock = pk_clock ''2025-01-15T04:05:00.000Z'' ''09'' ''05'',
        checkin_api = sheets_up,
        reminder_clock = pk_clock ''2025-01-15T04:05:01.000Z'' ''09'' ''05'',
        lookup_api = sheets_up,
        delete_scheduled = Inl (Error ''invalid_scheduled_message_id''),
        mark_api = sheets_up,
        reply_clock = pk_clock ''2025-01-15T04:05:02.000Z'' ''09'' ''05'',
        post_message = Inr () \<rparr>
      (office_world [] [[''2025-01-15'', ''U2'', ''D2'', ''Q2'', ''1736914200'', ''scheduled'']])) =
     Html ''Check-in'' (check_mark @ '' Check-in recorded for Ben at 09:05.'')
   \<and> attendance (snd (checkin_GET office_env (signed_request Checkin ''U2'' ''1000'')
      \<lparr> verify_now = 2000, users_info = Inr (Some ''Ben'', None),
        checkin_clock = pk_clock ''2025-01-15T04:05:00.000Z'' ''09'' ''05'',
        checkin_api = sheets_up,
        reminder_clock = pk_clock ''2025-01-15T04:05:01.000Z'' ''09'' ''05'',
        lookup_api = sheets_up,
        delete_scheduled = Inl (Error ''invalid_scheduled_message_id''),
        mark_api = sheets_up,
        reply_clock = pk_clock ''2025-01-15T04:05:02.000Z'' ''09'' ''05'',
        post_message = Inr () \<rparr>
      (office_world [] [[''2025-01-15'', ''U2'', ''D2'', ''Q2'', ''1736914200'', ''scheduled'']]))) =
     [[''2025-01-15'', ''U2'', ''Ben'', ''09:05:00'', [], [], ''2025-01-15T04:05:00.000Z'', []]]
   \<and> Warn ''Failed to cancel reminder for user U2:'' \<in> set (console (snd
     (checkin_GET office_env (signed_request Checkin ''U2'' ''1000'')
      \<lparr> verify_now = 2000, users_info = Inr (Some ''Ben'', None),
        checkin_clock = pk_clock ''2025-01-15T04:05:00.000Z'' ''09'' ''05'',
        checkin_api = sheets_up,
        reminder_clock = pk_clock ''2025-01-15T04:05:01.000Z'' ''09'' ''05'',
        lookup_api = sheets_up,
        delete_scheduled = Inl (Error ''invalid_scheduled_message_id''),
        mark_api = sheets_up,
        reply_clock = pk_clock ''2025-01-15T04:05:02.000Z'' ''09'' ''05'',
        post_message = Inr () \<rparr>
      (office_world [] [[''2025-01-15'', ''U2'', ''D2'', ''Q2'', ''1736914200'', ''scheduled'']]))))"
proof -
  let ?io = "\<lparr> verify_now = 2000, users_info = Inr (Some ''Ben'', None),
        checkin_clock = pk_clock ''2025-01-15T04:05:00.000Z'' ''09'' ''05'',
        checkin_api = sheets_up,
        reminder_clock = pk_clock ''2025-01-15T04:05:01.000Z'' ''09'' ''05'',
        lookup_api = sheets_up,
        delete_scheduled = Inl (Error ''invalid_scheduled_message_id''),
        mark_api = sheets_up,
        reply_clock = pk_clock ''2025-01-15T04:05:02.000Z'' ''09'' ''05'',
        post_message = Inr () \<rparr>"
  let ?w = "office_world [] [[''2025-01-15'', ''U2'', ''D2'', ''Q2'', ''1736914200'', ''scheduled'']]"
  let ?req = "signed_request Checkin ''U2'' ''1000''"
  let ?row = "[''2025-01-15'', ''U2'', ''Ben'', ''09:05:00'', [], [], ''2025-01-15T04:05:00.000Z'', []]"
  have params: "truthy (param_u ?req)" "truthy (param_ts ?req)" "truthy (param_sig ?req)"
    using length_createHmac_sha256_hex[of "''s3cret''" "''checkin:U2:1000''"]
    by (auto simp: signed_request_def truthy_def)
  have sig: "verifySignedAttendanceRequest (ATTENDANCE_SIGNING_SECRET office_env)
      (verify_now ?io) Checkin (or_else (param_u ?req) []) (or_else (param_ts ?req) [])
      (or_else (param_sig ?req) []) = Inr True"
    using office_gate_signature[of 2000 Checkin "''U2''"] length_createHmac_sha256_hex[of "''s3cret''" "''checkin:U2:1000''"]
    by (auto simp: office_env_def signed_request_def or_else_def)
  have ip: "fst (isIpAllowed (OFFICE_IP_ALLOWLIST office_env) (getClientIp ?req) (allowedIps ?w))"
    by (simp add: office_env_def office_world_def office_gate_ip)
  have names: "users_info ?io = Inr (Some ''Ben'', None)" by simp
  have claimed: "recordCheckIn (checkin_api ?io) (checkin_clock ?io) (or_else (param_u ?req) [])
        (or_else (Some ''Ben'') (or_else None (or_else (param_u ?req) []))) (attendance ?w) =
      (Inr \<lparr>alreadyCheckedIn = False, checkInTime = None, date = ''2025-01-15'',
            firstCheckInTimestamp = Some ''2025-01-15T04:05:00.000Z''\<rparr>, [?row])"
    by (simp add: recordCheckIn_def nowPk_def Let_def template_def or_else_def padStart2_def
        sheets_up_def pk_clock_def office_world_def signed_request_def)
  have fresh: "\<not> alreadyCheckedIn \<lparr>alreadyCheckedIn = False, checkInTime = None,
      date = ''2025-01-15'', firstCheckInTimestamp = Some ''2025-01-15T04:05:00.000Z''\<rparr>"
    by simp
  have announce: "truthy (SLACK_ATTENDANCE_CHANNEL_ID office_env) \<longrightarrow> (\<exists>x. post_message ?io = Inr x)"
    by simp
  have found: "\<exists>rem. findReminderForUser (lookup_api ?io) (getPkDateStr (reminder_clock ?io))
      (or_else (param_u ?req) []) (reminderQueue ?w) = Inr (Some rem) \<and> status rem = ''scheduled''"
    by (simp add: findReminderForUser_def getPkDateStr_def pk_clock_def or_else_def sheets_up_def
        office_world_def signed_request_def is_queue_row_def cell_def)
  have refused: "\<exists>err. delete_scheduled ?io = Inl err" by simp
  have u: "or_else (param_u ?req) [] = ''U2''"
    by (simp add: signed_request_def or_else_def)
  have name: "or_else (Some ''Ben'') (or_else None ''U2'') = ''Ben''"
    by (simp add: or_else_def)
  have t: "timePkHHmm (nowPk (reply_clock ?io)) = ''09:05''"
    by (simp add: nowPk_def pk_clock_def Let_def or_else_def padStart2_def)
  note run = checkin_survives_reminder_failure[OF params sig ip names claimed fresh announce,
      unfolded u name t]
  have msg: "'' Check-in recorded for '' @ ''Ben'' @ '' at '' @ ''09:05'' @ ''.'' =
      '' Check-in recorded for Ben at 09:05.''"
    by simp
  note page = run[THEN conjunct1, unfolded msg]
  note rows = run[THEN conjunct2, THEN conjunct1]
  from run[THEN conjunct2, THEN conjunct2, THEN conjunct2, THEN conjunct2, THEN conjunct1]
    found[unfolded u] refused
  have warn: "Warn ''Failed to cancel reminder for user U2:''
      \<in> set (console (snd (checkin_GET office_env ?req ?io ?w)))"
    by simp
  show ?thesis by (intro conjI page rows warn)
qed

section \<open>One iteration of the scheduler\<close>

lemma findReminder_status:
  "findReminderForUser api d u rows =
     (if \<not> get_ok api then Inl (ApiError ''spreadsheets.values.get'')
      else Inr (map_option (\<lambda>r. \<lparr> imChannelId = or_else (cell r 2) [],
                      scheduledMessageId = or_else (cell r 3) [],
                      postAt = number_or_zero (cell r 4),
                      status = or_else (cell r 5) [] \<rparr>) (find (is_queue_row d u) rows)))"
  by (simp add: findReminderForUser_def split: option.splits)

lemma already_scheduled_lookup:
  "get_ok api \<Longrightarrow>
   already_scheduled d u rows \<longleftrightarrow>
   (\<exists>rem. findReminderForUser api d u rows = Inr (Some rem) \<and> status rem = ''scheduled'')"
  by (auto simp: findReminder_status already_scheduled_def split: option.splits)

lemma schedule_member_lookup_fails:
  "\<not> get_ok (find_api io) \<Longrightarrow> schedule_member e d p m io w = member_failed m w"
  by (simp add: schedule_member_def findReminder_status)

lemma schedule_member_skips:
  "get_ok (find_api io) \<Longrightarrow> already_scheduled d m (reminderQueue w) \<Longrightarrow>
   schedule_member e d p m io w =
     (Skipped, say (Log (''Reminder already scheduled for user '' @ m)) w)"
  by (auto simp: schedule_member_def findReminder_status already_scheduled_def split: option.splits)

lemma generate_ok:
  "truthy s \<Longrightarrow> truthy b \<Longrightarrow> \<exists>url. generateSignedAttendanceUrl s b now type u = Inr url"
  by (simp add: generateSignedAttendanceUrl_def Let_def)

lemma generate_fails:
  "\<not> (truthy s \<and> truthy b) \<Longrightarrow> \<exists>err. generateSignedAttendanceUrl s b now type u = Inl err"
  by (auto simp: generateSignedAttendanceUrl_def Let_def)

lemma upsert_ok:
  assumes "get_ok api" "write_ok api"
  shows "upsertReminderQueueRow api d u c m p st rows =
    (Inr (), case findRowIndex (is_queue_row d u) rows of
               None \<Rightarrow> rows @ [[d, u, c, m, postAt_toString p, status_str st]]
             | Some i \<Rightarrow> rows[i := [d, u, c, m, postAt_toString p, status_str st]])"
  using assms by (simp add: upsertReminderQueueRow_def Let_def split: option.splits)

lemma upsert_fails:
  assumes "\<not> (get_ok api \<and> write_ok api)"
  shows "\<exists>err. upsertReminderQueueRow api d u c m p st rows = (Inl err, rows)"
  using assms by (auto simp: upsertReminderQueueRow_def Let_def split: option.splits)

lemma schedule_member_schedules:
  assumes "get_ok (find_api io)" "\<not> already_scheduled d m (reminderQueue w)" "steps_succeed e io"
  shows "fst (schedule_member e d p m io w) = Scheduled"
    and "reminderQueue (snd (schedule_member e d p m io w)) =
      (case findRowIndex (is_queue_row d m) (reminderQueue w) of
         None \<Rightarrow> reminderQueue w @
           [[d, m, answered_channel io, answered_message_id io, postAt_toString p, ''scheduled'']]
       | Some i \<Rightarrow> (reminderQueue w)
           [i := [d, m, answered_channel io, answered_message_id io, postAt_toString p,
                  ''scheduled'']])"
proof -
  from assms(3) obtain c where c: "open_dm io = Inr c" "truthy c" "answered_channel io = or_else c []"
    by (cases "open_dm io") (auto simp: steps_succeed_def answered_channel_def truthy_def or_else_def
        split: option.splits)
  from assms(3) obtain s where s: "schedule_msg io = Inr s" "truthy s" "answered_message_id io = or_else s []"
    by (cases "schedule_msg io") (auto simp: steps_succeed_def answered_message_id_def truthy_def
        or_else_def split: option.splits)
  from assms(3) obtain url where url: "generateSignedAttendanceUrl (ATTENDANCE_SIGNING_SECRET e)
      (APP_BASE_URL e) (url_now io) Checkin m = Inr url"
    using generate_ok[of "ATTENDANCE_SIGNING_SECRET e" "APP_BASE_URL e" "url_now io" Checkin m]
    by (auto simp: steps_succeed_def)
  from assms(3) have up: "get_ok (upsert_api io)" "write_ok (upsert_api io)"
    by (auto simp: steps_succeed_def)
  from assms(2) have ns: "\<not> (case find (is_queue_row d m) (reminderQueue w) of None \<Rightarrow> False
      | Some r \<Rightarrow> or_else (cell r 5) [] = ''scheduled'')"
    by (simp add: already_scheduled_def)
  have run: "schedule_member e d p m io w =
    (Scheduled, (call (ScheduleMessage (or_else c []) p (megaphone @ '' Standup Reminder''))
        (call (ConversationsOpen m) w))
      \<lparr>reminderQueue := (case findRowIndex (is_queue_row d m) (reminderQueue w) of
         None \<Rightarrow> reminderQueue w @ [[d, m, or_else c [], or_else s [], postAt_toString p, ''scheduled'']]
       | Some i \<Rightarrow> (reminderQueue w)[i := [d, m, or_else c [], or_else s [], postAt_toString p,
                  ''scheduled'']])\<rparr>)"
    using assms(1) ns c(1,2) s(1,2) url
    by (cases "findRowIndex (is_queue_row d m) (reminderQueue w)")
       (simp_all add: schedule_member_def findReminder_status Let_def upsert_ok[OF up]
          find_findRowIndex)
  show "fst (schedule_member e d p m io w) = Scheduled" by (simp add: run)
  show "reminderQueue (snd (schedule_member e d p m io w)) =
      (case findRowIndex (is_queue_row d m) (reminderQueue w) of
         None \<Rightarrow> reminderQueue w @
           [[d, m, answered_channel io, answered_message_id io, postAt_toString p, ''scheduled'']]
       | Some i \<Rightarrow> (reminderQueue w)
           [i := [d, m, answered_channel io, answered_message_id io, postAt_toString p,
                  ''scheduled'']])"
    by (simp add: run c(3) s(3) split: option.splits)
qed

lemma reminderQueue_member_failed [simp]:
  "reminderQueue (snd (member_failed m w)) = reminderQueue w"
  by (simp add: member_failed_def)

lemma fst_member_failed [simp]: "fst (member_failed m w) = Errored"
  by (simp add: member_failed_def)

lemma schedule_member_step_fails:
  assumes "get_ok (find_api io)" "\<not> already_scheduled d m (reminderQueue w)" "\<not> steps_succeed e io"
  shows "fst (schedule_member e d p m io w) = Errored"
    and "reminderQueue (snd (schedule_member e d p m io w)) = reminderQueue w"
proof -
  from assms(2) have ns: "\<not> (case find (is_queue_row d m) (reminderQueue w) of None \<Rightarrow> False
      | Some r \<Rightarrow> or_else (cell r 5) [] = ''scheduled'')"
    by (simp add: already_scheduled_def)
  have both: "fst (schedule_member e d p m io w) = Errored \<and>
      reminderQueue (snd (schedule_member e d p m io w)) = reminderQueue w"
  proof (cases "open_dm io")
    case (Inl err)
    with assms(1) ns show ?thesis
      by (cases "find (is_queue_row d m) (reminderQueue w)")
         (simp_all add: schedule_member_def findReminder_status Let_def)
  next
    case c: (Inr c)
    show ?thesis
    proof (cases "truthy c")
      case False
      with assms(1) ns c show ?thesis
        by (cases "find (is_queue_row d m) (reminderQueue w)")
           (simp_all add: schedule_member_def findReminder_status Let_def)
    next
      case tc: True
      then have ac: "answered_channel io \<noteq> []"
        using c by (auto simp: answered_channel_def truthy_def or_else_def split: option.splits)
      show ?thesis
      proof (cases "truthy (ATTENDANCE_SIGNING_SECRET e) \<and> truthy (APP_BASE_URL e)")
        case False
        then obtain err where "generateSignedAttendanceUrl (ATTENDANCE_SIGNING_SECRET e)
            (APP_BASE_URL e) (url_now io) Checkin m = Inl err"
          using generate_fails by blast
        with assms(1) ns c tc show ?thesis
          by (cases "find (is_queue_row d m) (reminderQueue w)")
             (simp_all add: schedule_member_def findReminder_status Let_def)
      next
        case cfg: True
        then obtain url where url: "generateSignedAttendanceUrl (ATTENDANCE_SIGNING_SECRET e)
            (APP_BASE_URL e) (url_now io) Checkin m = Inr url"
          using generate_ok by blast
        show ?thesis
        proof (cases "schedule_msg io")
          case (Inl err)
          with assms(1) ns c tc url show ?thesis
            by (cases "find (is_queue_row d m) (reminderQueue w)")
               (simp_all add: schedule_member_def findReminder_status Let_def)
        next
          case s: (Inr s)
          show ?thesis
          proof (cases "truthy s")
            case False
            with assms(1) ns c tc url s show ?thesis
              by (cases "find (is_queue_row d m) (reminderQueue w)")
                 (simp_all add: schedule_member_def findReminder_status Let_def)
          next
            case ts: True
            then have "answered_message_id io \<noteq> []"
              using s by (auto simp: answered_message_id_def truthy_def or_else_def split: option.splits)
            with assms(3) ac cfg have "\<not> (get_ok (upsert_api io) \<and> write_ok (upsert_api io))"
              by (auto simp: steps_succeed_def)
            from upsert_fails[OF this] obtain err where
              "upsertReminderQueueRow (upsert_api io) d m (or_else c []) (or_else s []) p StScheduled
                 (reminderQueue w) = (Inl err, reminderQueue w)"
              by blast
            with assms(1) ns c tc url s ts show ?thesis
              by (cases "find (is_queue_row d m) (reminderQueue w)")
                 (simp_all add: schedule_member_def findReminder_status Let_def)
          qed
        qed
      qed
    qed
  qed
  from both show "fst (schedule_member e d p m io w) = Errored" by simp
  from both show "reminderQueue (snd (schedule_member e d p m io w)) = reminderQueue w" by simp
qed


section \<open>The scheduler run\<close>

lemma schedule_member_skip_queue:
  "get_ok (find_api io) \<Longrightarrow> already_scheduled d m (reminderQueue w) \<Longrightarrow>
   reminderQueue (snd (schedule_member e d p m io w)) = reminderQueue w"
  by (simp add: schedule_member_skips)

lemma schedule_member_lookup_fails_queue:
  "\<not> get_ok (find_api io) \<Longrightarrow>
   reminderQueue (snd (schedule_member e d p m io w)) = reminderQueue w"
  by (simp add: schedule_member_lookup_fails)

lemma schedule_all_Cons:
  "schedule_all e d p ((m, io) # rest) c w =
     schedule_all e d p rest
       (case fst (schedule_member e d p m io w) of
          Scheduled \<Rightarrow> c\<lparr>successCount := successCount c + 1\<rparr>
        | Skipped \<Rightarrow> c\<lparr>skippedCount := skippedCount c + 1\<rparr>
        | Errored \<Rightarrow> c\<lparr>errorCount := errorCount c + 1\<rparr>)
       (snd (schedule_member e d p m io w))"
  by (simp split: prod.splits member_outcome.splits)


lemma schedule_all_queue_Cons:
  "snd (schedule_all e d p ((m, io) # rest) c w) =
     snd (schedule_all e d p rest c' (snd (schedule_member e d p m io w)))"
proof -
  have indep: "\<And>c1 c2 w'. snd (schedule_all e d p rest c1 w') = snd (schedule_all e d p rest c2 w')"
  proof (induction rest)
    case Nil
    show ?case by simp
  next
    case (Cons a rest)
    obtain m' io' where a: "a = (m', io')" by (cases a)
    show ?case unfolding a schedule_all_Cons by (rule Cons.IH)
  qed
  show ?thesis unfolding schedule_all_Cons by (rule indep)
qed






section \<open>A run with a skipped, a scheduled and a failed member\<close>

lemma digits_of_1736914200: "js_int_toString 1736914200 = ''1736914200''"
  by (simp add: js_int_toString_def digits_of.simps digit_char_def char_of_def bit_Suc_0_iff)

lemma office_steps_succeed: "steps_succeed office_env (slack_answers c m) \<longleftrightarrow> c \<noteq> [] \<and> m \<noteq> []"
  by (auto simp: steps_succeed_def office_env_def slack_answers_def answered_channel_def
      answered_message_id_def truthy_def or_else_def sheets_up_def)


section \<open>Re-running the scheduler\<close>

lemma lookup_found:
  assumes "findReminderForUser api d m rows = Inr (Some rem)"
  shows "get_ok api" and "already_scheduled d m rows \<longleftrightarrow> status rem = ''scheduled''"
    and "\<exists>i. findRowIndex (is_queue_row d m) rows = Some i"
proof -
  from assms show ok: "get_ok api" by (auto simp: findReminder_status split: if_splits)
  from assms ok obtain r where r: "find (is_queue_row d m) rows = Some r"
      and rem: "status rem = or_else (cell r 5) []"
    by (auto simp: findReminder_status)
  from r rem show "already_scheduled d m rows \<longleftrightarrow> status rem = ''scheduled''"
    by (simp add: already_scheduled_def)
  from r show "\<exists>i. findRowIndex (is_queue_row d m) rows = Some i"
    by (auto simp: find_findRowIndex)
qed

text \<open>
  The guard of the scheduler tests the status of the entry it finds for \<open>scheduled\<close> only.
  With the status \<open>scheduled\<close> the iteration skips the member and leaves the queue as it
  was. With any other status the iteration goes on as it does when there is no entry: it is
  counted as scheduled and \<open>upsertReminderQueueRow\<close> rewrites the row of the key, or it is
  counted as an error and the queue is unchanged.
\<close>

lemma schedule_member_by_status:
  assumes lookup: "findReminderForUser (find_api io) d m (reminderQueue w) = Inr (Some rem)"
  shows "(status rem = ''scheduled'' \<longrightarrow>
           schedule_member e d p m io w =
             (Skipped, say (Log (''Reminder already scheduled for user '' @ m)) w)
           \<and> reminderQueue (snd (schedule_member e d p m io w)) = reminderQueue w)
    \<and> (status rem \<noteq> ''scheduled'' \<and> steps_succeed e io \<longrightarrow>
           fst (schedule_member e d p m io w) = Scheduled
           \<and> (\<exists>i. findRowIndex (is_queue_row d m) (reminderQueue w) = Some i
                \<and> reminderQueue (snd (schedule_member e d p m io w)) =
                    (reminderQueue w)[i := [d, m, answered_channel io, answered_message_id io,
                                            postAt_toString p, ''scheduled'']]))
    \<and> (status rem \<noteq> ''scheduled'' \<and> \<not> steps_succeed e io \<longrightarrow>
           fst (schedule_member e d p m io w) = Errored
           \<and> reminderQueue (snd (schedule_member e d p m io w)) = reminderQueue w)"
proof (intro conjI impI)
  note ok = lookup_found(1)[OF lookup] and st = lookup_found(2)[OF lookup]
  {
    assume "status rem = ''scheduled''"
    with st have a: "already_scheduled d m (reminderQueue w)" by simp
    show "schedule_member e d p m io w =
        (Skipped, say (Log (''Reminder already scheduled for user '' @ m)) w)"
      by (rule schedule_member_skips[OF ok a])
    show "reminderQueue (snd (schedule_member e d p m io w)) = reminderQueue w"
      by (rule schedule_member_skip_queue[OF ok a])
  }
  {
    assume "status rem \<noteq> ''scheduled'' \<and> steps_succeed e io"
    with st have a: "\<not> already_scheduled d m (reminderQueue w)" and s: "steps_succeed e io"
      by simp_all
    show "fst (schedule_member e d p m io w) = Scheduled"
      by (rule schedule_member_schedules(1)[OF ok a s])
    from lookup_found(3)[OF lookup] obtain i where
      i: "findRowIndex (is_queue_row d m) (reminderQueue w) = Some i" by blast
    show "\<exists>i. findRowIndex (is_queue_row d m) (reminderQueue w) = Some i
        \<and> reminderQueue (snd (schedule_member e d p m io w)) =
            (reminderQueue w)[i := [d, m, answered_channel io, answered_message_id io,
                                    postAt_toString p, ''scheduled'']]"
      using i by (simp add: schedule_member_schedules(2)[OF ok a s])
  }
  {
    assume "status rem \<noteq> ''scheduled'' \<and> \<not> steps_succeed e io"
    with st have a: "\<not> already_scheduled d m (reminderQueue w)" and s: "\<not> steps_succeed e io"
      by simp_all
    show "fst (schedule_member e d p m io w) = Errored"
      by (rule schedule_member_step_fails(1)[OF ok a s])
    show "reminderQueue (snd (schedule_member e d p m io w)) = reminderQueue w"
      by (rule schedule_member_step_fails(2)[OF ok a s])
  }
qed

text \<open>
  What an iteration that schedules does to the rest of the world: it calls
  \<open>conversations.open\<close> and \<open>chat.scheduleMessage\<close>, and it does not read or write the
  attendance tab.
\<close>

lemma schedule_member_calls:
  assumes "get_ok (find_api io)" "\<not> already_scheduled d m (reminderQueue w)" "steps_succeed e io"
  shows "slack (snd (schedule_member e d p m io w)) =
      slack w @ [ConversationsOpen m,
                 ScheduleMessage (answered_channel io) p (megaphone @ '' Standup Reminder'')]"
    and "attendance (snd (schedule_member e d p m io w)) = attendance w"
proof -
  from assms(3) obtain c where c: "open_dm io = Inr c" "truthy c" "answered_channel io = or_else c []"
    by (cases "open_dm io") (auto simp: steps_succeed_def answered_channel_def truthy_def or_else_def
        split: option.splits)
  from assms(3) obtain s where s: "schedule_msg io = Inr s" "truthy s"
    by (cases "schedule_msg io") (auto simp: steps_succeed_def answered_message_id_def truthy_def
        or_else_def split: option.splits)
  from assms(3) obtain url where url: "generateSignedAttendanceUrl (ATTENDANCE_SIGNING_SECRET e)
      (APP_BASE_URL e) (url_now io) Checkin m = Inr url"
    using generate_ok[of "ATTENDANCE_SIGNING_SECRET e" "APP_BASE_URL e" "url_now io" Checkin m]
    by (auto simp: steps_succeed_def)
  from assms(3) have up: "get_ok (upsert_api io)" "write_ok (upsert_api io)"
    by (auto simp: steps_succeed_def)
  from assms(2) have ns: "\<not> (case find (is_queue_row d m) (reminderQueue w) of None \<Rightarrow> False
      | Some r \<Rightarrow> or_else (cell r 5) [] = ''scheduled'')"
    by (simp add: already_scheduled_def)
  have q: "schedule_member e d p m io w =
    (Scheduled, (call (ScheduleMessage (or_else c []) p (megaphone @ '' Standup Reminder''))
        (call (ConversationsOpen m) w))
      \<lparr>reminderQueue := (case findRowIndex (is_queue_row d m) (reminderQueue w) of
         None \<Rightarrow> reminderQueue w @ [[d, m, or_else c [], or_else s [], postAt_toString p, ''scheduled'']]
       | Some i \<Rightarrow> (reminderQueue w)[i := [d, m, or_else c [], or_else s [], postAt_toString p,
                  ''scheduled'']])\<rparr>)"
    using assms(1) ns c(1,2) s(1,2) url
    by (cases "findRowIndex (is_queue_row d m) (reminderQueue w)")
       (simp_all add: schedule_member_def findReminder_status Let_def upsert_ok[OF up]
          find_findRowIndex)
  show "slack (snd (schedule_member e d p m io w)) =
      slack w @ [ConversationsOpen m,
                 ScheduleMessage (answered_channel io) p (megaphone @ '' Standup Reminder'')]"
    by (simp add: q c(3) call_def)
  show "attendance (snd (schedule_member e d p m io w)) = attendance w"
    by (simp add: q call_def)
qed

lemma cron_GET_world:
  assumes "truthy (CRON_SECRET e)" "param_key req = CRON_SECRET e"
    "truthy (SLACK_ATTENDANCE_CHANNEL_ID e)" "get_ok (settings_api io)" "members io = Inr ms"
  shows "\<exists>v w3. getSetting (settings_api io) ''attendanceReminderTime'' (settings w) = Inr v \<and>
    snd (cron_GET e epoch req io w) =
       snd (schedule_all e (getPkDateStr (cron_clock io))
              (epoch (getPkDateStr (cron_clock io)) (or_else v ''09:10'')) ms
              \<lparr>successCount = 0, errorCount = 0, skippedCount = 0\<rparr> w3)
    \<and> attendance w3 = attendance w \<and> reminderQueue w3 = reminderQueue w \<and> slack w3 = slack w"
proof -
  have "\<exists>v. getSetting (settings_api io) ''attendanceReminderTime'' (settings w) = Inr v"
    using assms(4) by (simp add: getSetting_def split: option.splits)
  then obtain v where v: "getSetting (settings_api io) ''attendanceReminderTime'' (settings w) = Inr v"
    by blast
  let ?t = "or_else v ''09:10''"
  let ?d = "getPkDateStr (cron_clock io)"
  let ?w3 = "say (Log (''Found '' @ digits_of (length ms) @ '' members in attendance channel''))
     (say (Log (''Scheduling reminders for '' @ ?d @ '' at '' @ ?t @
                '' PKT (UTC epoch: '' @ postAt_toString (epoch ?d ?t) @ '')''))
        (say (Log (''Reminder time: '' @ ?t @ '' PKT'')) w))"
  show ?thesis
    using assms(1,2,3,5)
    by (intro exI[of _ v] exI[of _ ?w3]) (simp add: cron_GET_def v Let_def say_def)
qed

text \<open>
  Claim C1 (reminder status monotonicity). The claim is that an entry of the queue whose
  status is \<open>cancelled\<close> or \<open>sent\<close> never returns to \<open>scheduled\<close>, a re-run of the
  scheduler included. The code does not keep it. On 2025-01-15 the member \<open>U1\<close> has checked
  in (the attendance tab has the row) and the check-in has cancelled the reminder: the entry
  of \<open>U1\<close> has message id \<open>Q1\<close> and status \<open>cancelled\<close>. A run of the scheduler over the
  roster \<open>[U1]\<close> opens the DM channel, schedules a new message for \<open>U1\<close>, and rewrites the
  entry with the new message id \<open>Q9\<close> and the status \<open>scheduled\<close>; the attendance tab still
  has the check-in of \<open>U1\<close>.
\<close>

theorem scheduler_reverts_cancelled_entry:
  "reminderQueue (snd (cron_GET office_env epoch_0910 cron_request
      \<lparr> settings_api = sheets_up, cron_clock = pk_clock ''2025-01-15T00:30:00.000Z'' ''05'' ''30'',
        members = Inr [(''U1'', slack_answers ''D1'' ''Q9'')] \<rparr>
      (office_world [[''2025-01-15'', ''U1'', ''Ann'', ''09:05:00'']]
         [[''2025-01-15'', ''U1'', ''D1'', ''Q1'', ''1736914200'', ''cancelled'']]))) =
    [[''2025-01-15'', ''U1'', ''D1'', ''Q9'', ''1736914200'', ''scheduled'']]
   \<and> slack (snd (cron_GET office_env epoch_0910 cron_request
      \<lparr> settings_api = sheets_up, cron_clock = pk_clock ''2025-01-15T00:30:00.000Z'' ''05'' ''30'',
        members = Inr [(''U1'', slack_answers ''D1'' ''Q9'')] \<rparr>
      (office_world [[''2025-01-15'', ''U1'', ''Ann'', ''09:05:00'']]
         [[''2025-01-15'', ''U1'', ''D1'', ''Q1'', ''1736914200'', ''cancelled'']]))) =
    [ConversationsOpen ''U1'',
     ScheduleMessage ''D1'' (Some 1736914200) (megaphone @ '' Standup Reminder'')]
   \<and> attendance (snd (cron_GET office_env epoch_0910 cron_request
      \<lparr> settings_api = sheets_up, cron_clock = pk_clock ''2025-01-15T00:30:00.000Z'' ''05'' ''30'',
        members = Inr [(''U1'', slack_answers ''D1'' ''Q9'')] \<rparr>
      (office_world [[''2025-01-15'', ''U1'', ''Ann'', ''09:05:00'']]
         [[''2025-01-15'', ''U1'', ''D1'', ''Q1'', ''1736914200'', ''cancelled'']]))) =
    [[''2025-01-15'', ''U1'', ''Ann'', ''09:05:00'']]"
proof -
  let ?ms = "[(''U1'', slack_answers ''D1'' ''Q9'')]"
  let ?io = "\<lparr> settings_api = sheets_up,
      cron_clock = pk_clock ''2025-01-15T00:30:00.000Z'' ''05'' ''30'', members = Inr ?ms \<rparr>"
  let ?w = "office_world [[''2025-01-15'', ''U1'', ''Ann'', ''09:05:00'']]
         [[''2025-01-15'', ''U1'', ''D1'', ''Q1'', ''1736914200'', ''cancelled'']]"
  let ?epoch = "epoch_0910"
  have auth: "truthy (CRON_SECRET office_env)" "param_key cron_request = CRON_SECRET office_env"
    and channel: "truthy (SLACK_ATTENDANCE_CHANNEL_ID office_env)"
    and setting: "get_ok (settings_api ?io)"
    and roster: "members ?io = Inr ?ms"
    by (simp_all add: office_env_def cron_request_def truthy_def sheets_up_def)
  from cron_GET_world[OF auth channel setting roster, of ?w ?epoch]
  obtain c w3 where
    run: "snd (cron_GET office_env ?epoch cron_request ?io ?w) =
       snd (schedule_all office_env ''2025-01-15'' (Some 1736914200) ?ms c w3)"
    and q3: "reminderQueue w3 = [[''2025-01-15'', ''U1'', ''D1'', ''Q1'', ''1736914200'', ''cancelled'']]"
    and a3: "attendance w3 = [[''2025-01-15'', ''U1'', ''Ann'', ''09:05:00'']]"
    and s3: "slack w3 = []"
    by (auto simp: getPkDateStr_def pk_clock_def or_else_def office_world_def epoch_0910_def)
  have g: "get_ok (find_api (slack_answers ''D1'' ''Q9''))"
    by (simp add: slack_answers_def sheets_up_def)
  have a: "\<not> already_scheduled ''2025-01-15'' ''U1'' (reminderQueue w3)"
    by (simp add: q3 already_scheduled_def is_queue_row_def cell_def or_else_def)
  have st: "steps_succeed office_env (slack_answers ''D1'' ''Q9'')"
    by (simp add: office_steps_succeed)
  have one: "snd (schedule_all office_env ''2025-01-15'' (Some 1736914200) ?ms c w3) =
      snd (schedule_member office_env ''2025-01-15'' (Some 1736914200) ''U1''
             (slack_answers ''D1'' ''Q9'') w3)"
    by (subst schedule_all_queue_Cons[where c' = c]) simp
  have queue: "reminderQueue (snd (schedule_all office_env ''2025-01-15'' (Some 1736914200) ?ms c w3)) =
      [[''2025-01-15'', ''U1'', ''D1'', ''Q9'', ''1736914200'', ''scheduled'']]"
    unfolding one schedule_member_schedules(2)[OF g a st] q3
    by (simp add: is_queue_row_def cell_def answered_channel_def answered_message_id_def
        slack_answers_def or_else_def postAt_toString_def digits_of_1736914200)
  have calls: "slack (snd (schedule_all office_env ''2025-01-15'' (Some 1736914200) ?ms c w3)) =
      [ConversationsOpen ''U1'',
       ScheduleMessage ''D1'' (Some 1736914200) (megaphone @ '' Standup Reminder'')]"
    unfolding one schedule_member_calls(1)[OF g a st] s3
    by (simp add: answered_channel_def slack_answers_def or_else_def)
  have tab: "attendance (snd (schedule_all office_env ''2025-01-15'' (Some 1736914200) ?ms c w3)) =
      [[''2025-01-15'', ''U1'', ''Ann'', ''09:05:00'']]"
    unfolding one schedule_member_calls(2)[OF g a st] a3 by (rule refl)
  show ?thesis unfolding run by (intro conjI queue calls tab)
qed

end
